theory Spec2Isabelle
  imports Main "HOL-Library.List_Lexorder" "HOL-Library.Char_ord" "HOL-Library.Sublist"
begin

section \<open>Strings of the provisioning script\<close>

text \<open>
  The install script works on JavaScript strings. A string is modelled as a list of
  characters; \<open><\<close> on strings is the lexicographic order on character codes, which is
  what JavaScript's \<open><\<close> and \<open>>\<close> compute on two strings (a proper prefix is smaller).
\<close>

definition newline :: char where
  "newline = CHR 0x0A"

definition dquote :: char where
  "dquote = CHR 0x22"

definition backslash :: char where
  "backslash = CHR 0x5C"


text \<open>\<open>s.split(c)\<close> for a one-character separator: never empty, \<open>''''.split(c)\<close> is \<open>['''']\<close>.\<close>

fun split_on :: "char \<Rightarrow> string \<Rightarrow> string list" where
  "split_on c [] = [[]]"
| "split_on c (x # xs) =
     (if x = c then [] # split_on c xs
      else (case split_on c xs of
              [] \<Rightarrow> [[x]]
            | w # ws \<Rightarrow> (x # w) # ws))"

section \<open>The archive comparator of the download helper\<close>

text \<open>
  The object built by \<open>decodeDirectoryEntry\<close>; its field \<open>file\<close> is \<open>file_name\<close> here
  (\<open>file\<close> is reserved).
\<close>

record archive =
  file_name :: string
  system :: string
  version :: string
  suffix :: string

definition decodeVersion :: "archive \<Rightarrow> string list" where
  "decodeVersion f = split_on (CHR ''.'') (version f)"

text \<open>The inner \<open>cmp\<close> of \<open>compareFiles\<close>: descending order on strings.\<close>

definition cmp :: "string \<Rightarrow> string \<Rightarrow> int" where
  "cmp a b = (if a > b then - 1 else if a < b then 1 else 0)"

text \<open>
  The \<open>for\<close> loop of \<open>compareFiles\<close> from index \<open>i\<close> on, together with the
  \<open>return\<close> that follows it.
\<close>

function compareLoop :: "string list \<Rightarrow> string list \<Rightarrow> nat \<Rightarrow> nat \<Rightarrow> int" where
  "compareLoop v1 v2 nibbles i =
     (if i < nibbles then
        (let partialResult = cmp (v1 ! i) (v2 ! i)
         in if partialResult \<noteq> 0 then partialResult
            else compareLoop v1 v2 nibbles (i + 1))
      else (if length v1 > nibbles then - 1 else 1))"
  by pat_completeness auto
termination
  by (relation "measure (\<lambda>(v1, v2, nibbles, i). nibbles - i)") auto

declare compareLoop.simps [simp del]

definition compareFiles :: "archive \<Rightarrow> archive \<Rightarrow> int" where
  "compareFiles file1 file2 =
     (let v1 = decodeVersion file1;
          v2 = decodeVersion file2;
          nibbles = min (length v1) (length v2)
      in compareLoop v1 v2 nibbles 0)"

section \<open>JavaScript values read from the license file\<close>

text \<open>
  What \<open>JSON.parse\<close> returns. A number is kept as the text JavaScript prints for it
  (\<open>String(n)\<close>): the script only converts numbers to text or tests them for truth, and
  the only number of a JSON text that is false is zero, printed \<open>0\<close>. An object is the list
  of its own properties; of two entries with one key the first counts. \<open>JFunction\<close> is a
  built-in function with its name: no JSON text denotes one, but every array has the
  method \<open>keys\<close>, which the script reads when the license file holds an array.
\<close>

datatype json =
    JNull
  | JBool bool
  | JNum string
  | JStr string
  | JArr "json list"
  | JObj "(string \<times> json) list"
  | JFunction string

text \<open>A JavaScript value: \<open>None\<close> is \<open>undefined\<close>.\<close>

type_synonym js_value = "json option"

datatype js_error = TypeError | SyntaxError | SystemError string

text \<open>
  \<open>v[k]\<close> for the property names the script reads (\<open>keys\<close>, \<open>windows\<close>, \<open>mac\<close>,
  \<open>linux\<close>, \<open>licensee\<close>). Of these an array has \<open>keys\<close>, the method it inherits from
  \<open>Array.prototype\<close>; none of them is a property of a string, a number, a boolean or a
  function, nor inherited by an object. Reading a property of \<open>undefined\<close> or \<open>null\<close>
  throws.
\<close>

fun get_prop :: "js_value \<Rightarrow> string \<Rightarrow> js_error + js_value" where
  "get_prop None k = Inl TypeError"
| "get_prop (Some JNull) k = Inl TypeError"
| "get_prop (Some (JObj kvs)) k = Inr (map_of kvs k)"
| "get_prop (Some (JArr xs)) k =
     Inr (if k = ''keys'' then Some (JFunction ''keys'') else None)"
| "get_prop (Some v) k = Inr None"

text \<open>
  \<open>k in v\<close> for the same property names: inherited properties count, and the operator
  throws unless \<open>v\<close> is an object, an array or a function.
\<close>

fun js_in :: "string \<Rightarrow> json \<Rightarrow> js_error + bool" where
  "js_in k (JObj kvs) = Inr (map_of kvs k \<noteq> None)"
| "js_in k (JArr xs) = Inr (k = ''keys'')"
| "js_in k (JFunction n) = Inr False"
| "js_in k v = Inl TypeError"

text \<open>\<open>!v\<close> is \<open>\<not> truthy v\<close>.\<close>

fun truthy :: "js_value \<Rightarrow> bool" where
  "truthy None = False"
| "truthy (Some JNull) = False"
| "truthy (Some (JBool b)) = b"
| "truthy (Some (JNum n)) = (n \<noteq> ''0'')"
| "truthy (Some (JStr s)) = (s \<noteq> [])"
| "truthy (Some (JArr xs)) = True"
| "truthy (Some (JObj kvs)) = True"
| "truthy (Some (JFunction n)) = True"

fun join_comma :: "string list \<Rightarrow> string" where
  "join_comma [] = []"
| "join_comma [s] = s"
| "join_comma (s # t # ss) = s @ '','' @ join_comma (t # ss)"

text \<open>The text a value becomes when \<open>+\<close> appends it to a string.\<close>

fun to_string :: "json \<Rightarrow> string" where
  "to_string JNull = ''null''"
| "to_string (JBool b) = (if b then ''true'' else ''false'')"
| "to_string (JNum n) = n"
| "to_string (JStr s) = s"
| "to_string (JArr xs) = join_comma (map (\<lambda>x. if x = JNull then [] else to_string x) xs)"
| "to_string (JObj kvs) = ''[object Object]''"
| "to_string (JFunction n) = ''function '' @ n @ ''() { [native code] }''"

definition js_string :: "js_value \<Rightarrow> string" where
  "js_string v = (case v of None \<Rightarrow> ''undefined'' | Some j \<Rightarrow> to_string j)"

section \<open>Paths, the environment and the effects of the script\<close>

text \<open>
  An absolute, resolved path is its root (\<open>/\<close>, or the root of a drive) and the names
  below it; a relative path is the list of its names, read from the working directory.
\<close>

datatype abs_path = AbsPath string "string list"

datatype path = Rel "string list" | Abs abs_path

text \<open>\<open>path.join(p, name)\<close> for a plain name.\<close>

fun abs_join :: "abs_path \<Rightarrow> string \<Rightarrow> abs_path" where
  "abs_join (AbsPath r ns) n = AbsPath r (ns @ [n])"

text \<open>
  \<open>path.resolve(path.join(p, '..'))\<close> for an absolute, resolved \<open>p\<close>: the last name is
  dropped, and the root is its own parent.
\<close>

fun resolve_parent :: "abs_path \<Rightarrow> abs_path" where
  "resolve_parent (AbsPath r ns) = AbsPath r (butlast ns)"

fun depth :: "abs_path \<Rightarrow> nat" where
  "depth (AbsPath r ns) = length ns"

text \<open>
  What the script reads from its surroundings, and how the calls that can fail turn out.
  \<open>dirname\<close> is \<open>__dirname\<close>, which is absolute and resolved, so that
  \<open>path.resolve(__dirname)\<close> is the same path.
\<close>

record env =
  platform :: string
  dirname :: abs_path
  existsSync :: "path \<Rightarrow> bool"
  mkdirSync :: "path \<Rightarrow> js_error option"
  readdirSync :: "path \<Rightarrow> js_error + string list"
  readFileSync :: "path \<Rightarrow> js_error + string"
  JSON_parse :: "string \<Rightarrow> js_error + json"
  writeFileSync :: "path \<Rightarrow> string \<Rightarrow> js_error option"
  renameSync :: "path \<Rightarrow> path \<Rightarrow> js_error option"

definition isWin :: "env \<Rightarrow> bool" where
  "isWin e = prefix ''win'' (platform e)"

definition isMac :: "env \<Rightarrow> bool" where
  "isMac e = prefix ''darwin'' (platform e)"

definition dependencyArchiveDir :: string where
  "dependencyArchiveDir = ''deps_archive''"

definition dependencyDir :: string where
  "dependencyDir = ''deps''"

definition libxlDir :: path where
  "libxlDir = Rel [dependencyDir, ''libxl'']"

definition ftpHost :: string where
  "ftpHost = ''xlware.com''"

definition licenseFilename :: string where
  "licenseFilename = ''libxl-license.json''"

text \<open>The separator \<open>path.join\<close> puts between names, and a path as the string it is.\<close>

definition sep :: "env \<Rightarrow> string" where
  "sep e = (if isWin e then [backslash] else ''/'')"

fun join_sep :: "string \<Rightarrow> string list \<Rightarrow> string" where
  "join_sep s [] = []"
| "join_sep s [n] = n"
| "join_sep s (n # m # ns) = n @ s @ join_sep s (m # ns)"

fun path_string :: "env \<Rightarrow> path \<Rightarrow> string" where
  "path_string e (Rel ns) = join_sep (sep e) ns"
| "path_string e (Abs (AbsPath r ns)) = r @ join_sep (sep e) ns"

text \<open>
  What the script does to the world, in order. An argument of \<open>spawn\<close> is a string or the
  \<open>null\<close> that \<open>finder\<close> returned (\<open>None\<close>).
\<close>

datatype effect =
    Log string
  | Mkdir path
  | Spawn string "string option list"
  | Rename path path
  | WriteFile path string
  | Connect string

text \<open>
  How a run of statements ends: it goes on with a value, the process exits with a code
  (\<open>process.exit\<close>), or an exception is thrown and nothing catches it.
\<close>

datatype 'a outcome = Continue 'a | Exit nat | Throw js_error

type_synonym 'a run = "effect list \<times> 'a outcome"

definition then_run :: "'a run \<Rightarrow> ('a \<Rightarrow> 'b run) \<Rightarrow> 'b run" where
  "then_run m f =
     (case m of
        (t, Continue a) \<Rightarrow> (case f a of (t', r) \<Rightarrow> (t @ t', r))
      | (t, Exit n) \<Rightarrow> (t, Exit n)
      | (t, Throw x) \<Rightarrow> (t, Throw x))"

definition log :: "string \<Rightarrow> unit run" where
  "log s = ([Log s], Continue ())"

definition exit_with :: "nat \<Rightarrow> 'a run" where
  "exit_with n = ([], Exit n)"

definition value_of :: "js_error + 'a \<Rightarrow> 'a run" where
  "value_of r = (case r of Inl x \<Rightarrow> ([], Throw x) | Inr a \<Rightarrow> ([], Continue a))"

text \<open>A call that changes the file system: recorded when it succeeds, thrown when it fails.\<close>

definition perform :: "js_error option \<Rightarrow> effect \<Rightarrow> unit run" where
  "perform failure eff =
     (case failure of None \<Rightarrow> ([eff], Continue ()) | Some x \<Rightarrow> ([], Throw x))"

section \<open>Providing the library\<close>

text \<open>The loop of \<open>finder\<close> over the names \<open>readdirSync\<close> returned; the patterns are prefixes.\<close>

fun finder_loop :: "string list \<Rightarrow> string \<Rightarrow> string list \<Rightarrow> path option" where
  "finder_loop dir pattern [] = None"
| "finder_loop dir pattern (f # files) =
     (if prefix pattern f then Some (Rel (dir @ [f])) else finder_loop dir pattern files)"

definition finder :: "env \<Rightarrow> string list \<Rightarrow> string \<Rightarrow> path option run" where
  "finder e dir pattern =
     then_run (value_of (readdirSync e (Rel dir)))
       (\<lambda>files. ([], Continue (finder_loop dir pattern files)))"

text \<open>A path that may be \<open>null\<close>, as \<open>+\<close> prints it and as \<open>spawn\<close> receives it.\<close>

definition shown :: "env \<Rightarrow> path option \<Rightarrow> string" where
  "shown e p = (case p of None \<Rightarrow> ''null'' | Some q \<Rightarrow> path_string e q)"

definition passed :: "env \<Rightarrow> path option \<Rightarrow> string option" where
  "passed e p = map_option (path_string e) p"

text \<open>
  \<open>execute\<close> starts the command and returns; its listener for \<open>close\<close> is \<open>on_close\<close>
  below. \<open>extractor\<close> ignores its \<open>target\<close> and unpacks into \<open>dependencyDir\<close>.
\<close>

definition execute :: "string \<Rightarrow> string option list \<Rightarrow> unit run" where
  "execute cmd args = ([Spawn cmd args], Continue ())"

definition extractor :: "env \<Rightarrow> path option \<Rightarrow> unit run" where
  "extractor e file =
     then_run (log (''Extracting '' @ shown e file @ '' ...''))
       (\<lambda>_. if isWin e then
               execute (path_string e (Rel [''tools'', ''7zip'', ''7za.exe'']))
                 [Some ''x'', passed e file, Some (''-o'' @ dependencyDir)]
             else
               execute ''tar''
                 [Some ''-C'', Some dependencyDir, Some ''--no-same-owner'', Some ''-zxf'',
                  passed e file])"

text \<open>
  The block that provides \<open>deps/libxl\<close>. The result tells whether an extraction was
  started, whose \<open>close\<close> event is still to come.
\<close>

definition provision :: "env \<Rightarrow> bool run" where
  "provision e =
     (if existsSync e libxlDir then
        then_run (log ''Libxl already downloaded, nothing to do'') (\<lambda>_. ([], Continue False))
      else
        then_run
          (if \<not> existsSync e (Rel [dependencyDir])
           then perform (mkdirSync e (Rel [dependencyDir])) (Mkdir (Rel [dependencyDir]))
           else ([], Continue ()))
          (\<lambda>_. let suffix = (if isWin e then ''win'' else if isMac e then ''mac'' else ''lin'');
                    searchString = ''libxl-'' @ suffix
                in then_run (finder e [dependencyArchiveDir] searchString)
                     (\<lambda>selectedArchive.
                        then_run (extractor e selectedArchive) (\<lambda>_. ([], Continue True)))))"

text \<open>
  The listener \<open>execute\<close> registers, run when the extraction has ended with \<open>code\<close>
  (\<open>None\<close> when a signal ended it) in the file system \<open>e\<close> of that moment: the renaming
  callback on code 0, \<open>process.exit(1)\<close> otherwise.
\<close>

definition on_close :: "env \<Rightarrow> nat option \<Rightarrow> unit run" where
  "on_close e code =
     (if code = Some 0 then
        then_run (finder e [dependencyDir] ''libxl'')
          (\<lambda>extractedDir.
             then_run
               (log (''Renaming '' @ shown e extractedDir @ '' to '' @ path_string e libxlDir
                     @ '' ...''))
               (\<lambda>_. case extractedDir of
                       None \<Rightarrow> ([], Throw TypeError)
                     | Some d \<Rightarrow> perform (renameSync e d libxlDir) (Rename d libxlDir)))
      else exit_with 1)"

text \<open>
  The start of \<open>download\<close>, up to the connection it opens. The script defines the function
  and never calls it: its only call is commented out.
\<close>

definition download :: "unit run" where
  "download =
     then_run (log (''Connecting to ftp://'' @ ftpHost @ ''...''))
       (\<lambda>_. ([Connect ftpHost], Continue ()))"

section \<open>Applying the license\<close>

text \<open>
  The \<open>while\<close> loop that looks for the license file from \<open>searchDir\<close> upwards: the path
  found, or \<open>None\<close> where the script prints its message and calls \<open>process.exit(1)\<close>.
\<close>

function find_license :: "env \<Rightarrow> abs_path \<Rightarrow> abs_path option" where
  "find_license e searchDir =
     (let parentDir = resolve_parent searchDir
      in if existsSync e (Abs (abs_join searchDir licenseFilename))
         then Some (abs_join searchDir licenseFilename)
         else if parentDir = searchDir then None
         else find_license e parentDir)"
  by pat_completeness auto

termination find_license
proof (relation "measure (\<lambda>(e, d). depth d)")
  show "wf (measure (\<lambda>(e, d). depth d))"
    by simp
next
  fix e :: env and searchDir parentDir :: abs_path
  assume parent: "parentDir = resolve_parent searchDir" and moved: "parentDir \<noteq> searchDir"
  obtain r ns where d: "searchDir = AbsPath r ns"
    by (cases searchDir)
  from parent moved d have "ns \<noteq> []"
    by auto
  then have "length (butlast ns) < length ns"
    by simp
  with parent d show "((e, parentDir), (e, searchDir)) \<in> measure (\<lambda>(e, d). depth d)"
    by simp
qed

declare find_license.simps [simp del]

text \<open>
  The same loop with a bound on its iterations: \<open>None\<close> when the bound is used up before
  the loop has ended, else the result of the loop.
\<close>

fun find_license_steps :: "nat \<Rightarrow> env \<Rightarrow> abs_path \<Rightarrow> abs_path option option" where
  "find_license_steps 0 e searchDir = None"
| "find_license_steps (Suc n) e searchDir =
     (let parentDir = resolve_parent searchDir
      in if existsSync e (Abs (abs_join searchDir licenseFilename))
         then Some (Some (abs_join searchDir licenseFilename))
         else if parentDir = searchDir then Some None
         else find_license_steps n e parentDir)"

definition locate :: "env \<Rightarrow> abs_path run" where
  "locate e =
     (case find_license e (dirname e) of
        None \<Rightarrow> then_run (log ''Cannot locate libxl-license.json; terminating'')
                  (\<lambda>_. exit_with 1)
      | Some licensePath \<Rightarrow> ([], Continue licensePath))"

text \<open>\<open>licenses['keys'][name]\<close>.\<close>

definition keys_entry :: "json \<Rightarrow> string \<Rightarrow> js_value run" where
  "keys_entry licenses name =
     then_run (value_of (get_prop (Some licenses) ''keys''))
       (\<lambda>keys. value_of (get_prop keys name))"

definition select_license :: "env \<Rightarrow> json \<Rightarrow> js_value run" where
  "select_license e licenses =
     (if isWin e then keys_entry licenses ''windows''
      else if isMac e then keys_entry licenses ''mac''
      else keys_entry licenses ''linux'')"

definition apiKeyFileContents :: "js_value \<Rightarrow> js_value \<Rightarrow> string" where
  "apiKeyFileContents licensee license =
     ''#define INCLUDE_API_KEY 1'' @ [newline] @
     ''#define API_KEY_NAME '' @ [dquote] @ js_string licensee @ [dquote, newline] @
     ''#define API_KEY_KEY '' @ [dquote] @ js_string license @ [dquote, newline]"

definition api_key_h :: "env \<Rightarrow> path" where
  "api_key_h e = Abs (abs_join (abs_join (dirname e) ''src'') ''api_key.h'')"

text \<open>The statements after \<open>JSON.parse\<close>: the key is selected and the header written.\<close>

definition embed_license :: "env \<Rightarrow> json \<Rightarrow> unit run" where
  "embed_license e licenses =
     then_run (select_license e licenses) (\<lambda>license.
     then_run
       (if \<not> truthy license then
          then_run (log (''Cannot find the license key appropriate for this '' @
                         ''platform in libxl-license.json''))
            (\<lambda>_. exit_with 1)
        else ([], Continue ())) (\<lambda>_.
     then_run (value_of (js_in ''licensee'' licenses)) (\<lambda>present.
     then_run
       (if \<not> present then log ''Must specify a licensee in libxl-license.json''
        else ([], Continue ())) (\<lambda>_.
     then_run (value_of (get_prop (Some licenses) ''licensee'')) (\<lambda>licensee.
       perform (writeFileSync e (api_key_h e) (apiKeyFileContents licensee license))
         (WriteFile (api_key_h e) (apiKeyFileContents licensee license)))))))"

text \<open>The script from the search for the license file to its last statement.\<close>

definition apply_license :: "env \<Rightarrow> unit run" where
  "apply_license e =
     then_run (locate e) (\<lambda>licensePath.
     then_run (log (''Applying licenses from '' @ [dquote] @ path_string e (Abs licensePath)
                    @ [dquote])) (\<lambda>_.
     then_run (value_of (readFileSync e (Abs licensePath))) (\<lambda>contents.
     then_run (value_of (JSON_parse e contents)) (\<lambda>licenses.
       embed_license e licenses))))"

text \<open>
  The whole script, up to the end of its last statement. Where the result is
  \<open>Continue True\<close> the extraction is still running and \<open>on_close\<close> follows; where the
  script exits or throws, the process ends and the listener never runs.
\<close>

definition script :: "env \<Rightarrow> bool run" where
  "script e =
     then_run (provision e) (\<lambda>started.
     then_run (apply_license e) (\<lambda>_. ([], Continue started)))"

text \<open>
  The process from its start to its end. Where the script has started an extraction and
  reached its last statement, the process waits for the child: \<open>Inr code\<close> is its
  \<open>close\<close> event, handled by \<open>on_close\<close> in the file system \<open>e'\<close> of that moment;
  \<open>Inl x\<close> is an \<open>error\<close> event of the child (the command could not be started), for
  which \<open>execute\<close> registers no listener, so that it is thrown. Where the script has exited
  or thrown, the process has ended before any event of the child.
\<close>

definition whole_run :: "env \<Rightarrow> env \<Rightarrow> js_error + nat option \<Rightarrow> unit run" where
  "whole_run e e' ending =
     then_run (script e) (\<lambda>started.
       if started then
         (case ending of
            Inl x \<Rightarrow> ([], Throw x)
          | Inr code \<Rightarrow> on_close e' code)
       else ([], Continue ()))"

section \<open>The generated header as the compiler of \<open>book.cc\<close> reads it\<close>

text \<open>
  \<open>book.cc\<close> includes \<open>api_key.h\<close> and uses its macros \<open>INCLUDE_API_KEY\<close>,
  \<open>API_KEY_NAME\<close> and \<open>API_KEY_KEY\<close>. The header is generated when the package is
  installed and is not among the sources, and the build that compiles it in is not either.
  The specification calls it a generated header consumed by the native library's
  initialization call. What is consumed is given below by the rules of the language, as
  far as the text the script writes needs them; where these definitions do not decide,
  the result says so (\<open>None\<close>, \<open>Undecided\<close>).
\<close>






text \<open>
  Modelled from the spec: what \<open>Book::New\<close> is compiled with, the header being generated
  and consumed outside the sources. It is decided for the texts of the shape the script
  writes, and for the empty text: no key where the header is empty; the two strings where
  the header is the line \<open>#define INCLUDE_API_KEY 1\<close>, a line that defines
  \<open>API_KEY_NAME\<close> and a line that defines \<open>API_KEY_KEY\<close>, both as such literals, and
  nothing else; undecided for every other text.
\<close>

datatype api_key = NoKey | Key string string | Undecided



section \<open>The constructor of a book\<close>





section \<open>Asynchronous workers of a book\<close>

type_synonym bytes = "nat list"

text \<open>The values a worker hands to its callback.\<close>

datatype v8_value = Undefined | Integer int | Buffer bytes | Error string

text \<open>
  The wrapped native book as one worker sees it: what each call \<open>Execute\<close> can make
  returns, and the message \<open>errorMessage\<close> gives afterwards. \<open>saveRaw\<close> is \<open>None\<close> when
  the call returns false, else the data it points to. \<open>PICTURETYPE_ERROR\<close> is a constant of
  the native library's header.
\<close>

record libxl_book =
  load :: "string \<Rightarrow> bool"
  save :: "string \<Rightarrow> bool"
  saveRaw :: "bytes option"
  loadRaw :: "bytes \<Rightarrow> bool"
  getPicture :: "int \<Rightarrow> int \<times> bytes"
  addPicture :: "string \<Rightarrow> int"
  addPicture2 :: "bytes \<Rightarrow> int"
  errorMessage :: string
  PICTURETYPE_ERROR :: int

text \<open>The worker classes of \<open>book.cc\<close> with the arguments they copy.\<close>

datatype worker =
    LoadWorker string
  | WriteWorker string
  | WriteRawWorker
  | LoadRawWorker bytes
  | GetPictureWorker int
  | AddPictureFileWorker string
  | AddPictureBufferWorker bytes

text \<open>
  The fields of a worker that \<open>Execute\<close> writes: the error message of the base class and
  the members of the subclasses, \<open>None\<close> while they are not assigned.
\<close>

record worker_state =
  errmsg :: "string option"
  buffer :: "bytes option"
  pictureType :: "int option"
  index :: "int option"

definition fresh :: worker_state where
  "fresh = \<lparr>errmsg = None, buffer = None, pictureType = None, index = None\<rparr>"

text \<open>
  Modelled from the spec: \<open>async_worker.h\<close>, which declares \<open>AsyncWorker\<close> with its
  method \<open>RaiseLibxlError\<close>, is not among the sources. By the specification the error of
  the native library is captured as a string.
\<close>

definition RaiseLibxlError :: "libxl_book \<Rightarrow> worker_state \<Rightarrow> worker_state" where
  "RaiseLibxlError book st = st\<lparr>errmsg := Some (errorMessage book)\<rparr>"

text \<open>
  Modelled from the spec: \<open>HandleErrorCallback\<close> of the base class of \<open>AsyncWorker\<close>, not
  among the sources. By the specification the captured error is surfaced in the error slot
  of the callback, its first argument, in one invocation.
\<close>

definition HandleErrorCallback :: "string \<Rightarrow> v8_value list list" where
  "HandleErrorCallback msg = [[Error msg]]"

text \<open>
  Modelled from the spec: the \<open>HandleOKCallback\<close> a worker inherits unless it overrides
  it, not among the sources. By the specification the callback is invoked exactly once; a
  worker with no result of its own has no argument to pass.
\<close>

definition default_HandleOKCallback :: "v8_value list list" where
  "default_HandleOKCallback = [[]]"

text \<open>\<open>Execute\<close> of each worker, on the background thread.\<close>

fun Execute :: "libxl_book \<Rightarrow> worker \<Rightarrow> worker_state" where
  "Execute book (LoadWorker filename) =
     (if \<not> load book filename then RaiseLibxlError book fresh else fresh)"
| "Execute book (WriteWorker filename) =
     (if \<not> save book filename then RaiseLibxlError book fresh else fresh)"
| "Execute book WriteRawWorker =
     (case saveRaw book of
        None \<Rightarrow> RaiseLibxlError book fresh
      | Some data \<Rightarrow> fresh\<lparr>buffer := Some data\<rparr>)"
| "Execute book (LoadRawWorker data) =
     (if \<not> loadRaw book data then RaiseLibxlError book fresh else fresh)"
| "Execute book (GetPictureWorker i) =
     (case getPicture book i of
        (t, data) \<Rightarrow>
          (let st = fresh\<lparr>pictureType := Some t\<rparr>
           in if t = PICTURETYPE_ERROR book then RaiseLibxlError book st
              else st\<lparr>buffer := Some data\<rparr>))"
| "Execute book (AddPictureFileWorker filename) =
     (let st = fresh\<lparr>index := Some (addPicture book filename)\<rparr>
      in if addPicture book filename = - 1 then RaiseLibxlError book st else st)"
| "Execute book (AddPictureBufferWorker data) =
     (let st = fresh\<lparr>index := Some (addPicture2 book data)\<rparr>
      in if addPicture2 book data = - 1 then RaiseLibxlError book st else st)"

text \<open>
  \<open>HandleOKCallback\<close> of each worker: the calls of the callback with their arguments, or
  \<open>None\<close> where it would read a member that was never assigned.
\<close>

fun HandleOKCallback :: "worker \<Rightarrow> worker_state \<Rightarrow> v8_value list list option" where
  "HandleOKCallback WriteRawWorker st =
     (case buffer st of None \<Rightarrow> None | Some b \<Rightarrow> Some [[Undefined, Buffer b]])"
| "HandleOKCallback (GetPictureWorker i) st =
     (case (pictureType st, buffer st) of
        (Some t, Some b) \<Rightarrow> Some [[Undefined, Integer t, Buffer b]]
      | _ \<Rightarrow> None)"
| "HandleOKCallback (AddPictureFileWorker filename) st =
     (case index st of None \<Rightarrow> None | Some n \<Rightarrow> Some [[Undefined, Integer n]])"
| "HandleOKCallback (AddPictureBufferWorker data) st =
     (case index st of None \<Rightarrow> None | Some n \<Rightarrow> Some [[Undefined, Integer n]])"
| "HandleOKCallback w st = Some default_HandleOKCallback"

text \<open>
  Modelled from the spec: \<open>WorkComplete\<close> of \<open>AsyncWorker\<close> and its base class, not among
  the sources. By the specification it runs on the event loop when \<open>Execute\<close> has
  returned and marshals the result or the error to the callback: the error callback where
  an error was raised, the OK callback otherwise.
\<close>

definition WorkComplete :: "worker \<Rightarrow> worker_state \<Rightarrow> v8_value list list option" where
  "WorkComplete w st =
     (case errmsg st of
        None \<Rightarrow> HandleOKCallback w st
      | Some msg \<Rightarrow> Some (HandleErrorCallback msg))"

text \<open>A queued worker from start to end: the calls its callback receives.\<close>

definition run_worker :: "libxl_book \<Rightarrow> worker \<Rightarrow> v8_value list list option" where
  "run_worker book w = WorkComplete w (Execute book w)"

text \<open>The \<open>n\<close>-th argument a JavaScript function sees: \<open>undefined\<close> where none was passed.\<close>

definition argument :: "v8_value list \<Rightarrow> nat \<Rightarrow> v8_value" where
  "argument args n = (if n < length args then args ! n else Undefined)"

text \<open>
  When the native call of a worker has failed, as the synchronous methods of \<open>book.cc\<close>
  test it too: a false result, \<open>PICTURETYPE_ERROR\<close>, or the index \<open>-1\<close>.
\<close>

fun native_failed :: "libxl_book \<Rightarrow> worker \<Rightarrow> bool" where
  "native_failed book (LoadWorker filename) = (\<not> load book filename)"
| "native_failed book (WriteWorker filename) = (\<not> save book filename)"
| "native_failed book WriteRawWorker = (saveRaw book = None)"
| "native_failed book (LoadRawWorker data) = (\<not> loadRaw book data)"
| "native_failed book (GetPictureWorker i) = (fst (getPicture book i) = PICTURETYPE_ERROR book)"
| "native_failed book (AddPictureFileWorker filename) = (addPicture book filename = - 1)"
| "native_failed book (AddPictureBufferWorker data) = (addPicture2 book data = - 1)"

section \<open>Kinds of effects\<close>

text \<open>The effects that create, unpack or move something below \<open>deps\<close>.\<close>

fun provides_library :: "effect \<Rightarrow> bool" where
  "provides_library (Mkdir p) = True"
| "provides_library (Spawn cmd args) = True"
| "provides_library (Rename p q) = True"
| "provides_library eff = False"

text \<open>The renaming of a file or directory.\<close>

fun renames :: "effect \<Rightarrow> bool" where
  "renames (Rename p q) = True"
| "renames eff = False"

text \<open>The effect of a download: a connection to a host.\<close>

fun connects :: "effect \<Rightarrow> bool" where
  "connects (Connect h) = True"
| "connects eff = False"

section \<open>Concrete inputs\<close>

text \<open>
  A native book whose \<open>load\<close> knows one file, whose \<open>loadRaw\<close> and \<open>addPicture\<close> fail, and
  which holds one picture, at index 0.
\<close>

definition book0 :: libxl_book where
  "book0 =
     \<lparr>load = (\<lambda>f. f = ''in.xls''), save = (\<lambda>f. True), saveRaw = Some [80, 75, 3],
      loadRaw = (\<lambda>d. False), getPicture = (\<lambda>i. if i = 0 then (1, [255, 216]) else (255, [])),
      addPicture = (\<lambda>f. - 1), addPicture2 = (\<lambda>d. 4), errorMessage = ''can not open file'',
      PICTURETYPE_ERROR = 255\<rparr>"

text \<open>
  A Linux host with the script in \<open>/home/app\<close>, three names in \<open>deps_archive\<close>, calls that
  do not fail, and a license file that parses to \<open>licenses\<close>; \<open>present\<close> tells which paths
  exist.
\<close>

definition host :: "(path \<Rightarrow> bool) \<Rightarrow> json \<Rightarrow> env" where
  "host present licenses =
     \<lparr>platform = ''linux'',
      dirname = AbsPath ''/'' [''home'', ''app''],
      existsSync = present,
      mkdirSync = (\<lambda>p. None),
      readdirSync = (\<lambda>p. if p = Rel [''deps_archive'']
                          then Inr [''README'', ''libxl-mac-3.6.2.tar.gz'', ''libxl-lin-3.6.2.tar.gz'']
                          else Inl (SystemError ''ENOENT'')),
      readFileSync = (\<lambda>p. Inr ''the license''),
      JSON_parse = (\<lambda>s. if s = ''the license'' then Inr licenses else Inl SyntaxError),
      writeFileSync = (\<lambda>p s. None),
      renameSync = (\<lambda>p q. None)\<rparr>"

definition license_above :: "path \<Rightarrow> bool" where
  "license_above p = (p = Abs (AbsPath ''/'' [''home'', ''libxl-license.json'']))"

definition nothing :: "path \<Rightarrow> bool" where
  "nothing p = False"

definition licenses0 :: json where
  "licenses0 =
     JObj [(''licensee'', JStr ''Acme Inc''),
           (''keys'', JObj [(''mac'', JStr ''mac-1''), (''windows'', JStr ''win-2''),
                            (''linux'', JStr ''lin-3'')])]"

text \<open>License files: without a key for Linux, with an empty one, and without a licensee.\<close>

definition licenses_no_linux :: json where
  "licenses_no_linux =
     JObj [(''licensee'', JStr ''Acme Inc''),
           (''keys'', JObj [(''mac'', JStr ''mac-1''), (''windows'', JStr ''win-2'')])]"

definition licenses_empty_linux :: json where
  "licenses_empty_linux =
     JObj [(''licensee'', JStr ''Acme Inc''), (''keys'', JObj [(''linux'', JStr [])])]"

text \<open>A license file that holds an empty array, \<open>[]\<close>.\<close>

definition licenses_array :: json where
  "licenses_array = JArr []"


definition library_present :: "path \<Rightarrow> bool" where
  "library_present p = (p = libxlDir \<or> license_above p)"

text \<open>The same host once the archive is unpacked: \<open>deps\<close> holds the extracted directory.\<close>

definition unpacked :: env where
  "unpacked =
     (host license_above licenses0)
       \<lparr>readdirSync := (\<lambda>p. if p = Rel [''deps''] then Inr [''libxl-3.6.2.0'']
                              else Inl (SystemError ''ENOENT''))\<rparr>"


section \<open>Properties of the comparator\<close>

lemma cmp_same: "cmp a a = 0"
  by (simp add: cmp_def)

lemma compareLoop_nonzero: "compareLoop v1 v2 nibbles i \<noteq> 0"
proof (induction v1 v2 nibbles i rule: compareLoop.induct)
  case (1 v1 v2 nibbles i)
  show ?case
  proof (cases "i < nibbles")
    case True
    with "1.IH" show ?thesis
      by (subst compareLoop.simps) (simp add: Let_def)
  next
    case False
    then show ?thesis
      by (subst compareLoop.simps) simp
  qed
qed

lemma compareLoop_agree:
  "(\<And>j. i \<le> j \<Longrightarrow> j < nibbles \<Longrightarrow> v1 ! j = v2 ! j) \<Longrightarrow>
   compareLoop v1 v2 nibbles i = (if length v1 > nibbles then - 1 else 1)"
proof (induction v1 v2 nibbles i rule: compareLoop.induct)
  case (1 v1 v2 nibbles i)
  show ?case
  proof (cases "i < nibbles")
    case True
    then have same: "cmp (v1 ! i) (v2 ! i) = 0"
      using "1.prems" [of i] by (simp add: cmp_same)
    have "compareLoop v1 v2 nibbles (i + 1) = (if length v1 > nibbles then - 1 else 1)"
      using True same "1.prems" by (intro "1.IH") auto
    with True same show ?thesis
      by (subst compareLoop.simps) simp
  next
    case False
    then show ?thesis
      by (subst compareLoop.simps) simp
  qed
qed

lemma compareFiles_nonzero: "compareFiles file1 file2 \<noteq> 0"
  by (simp add: compareFiles_def Let_def compareLoop_nonzero)

lemma compareFiles_agree:
  assumes "\<And>j. j < min (length (decodeVersion file1)) (length (decodeVersion file2)) \<Longrightarrow>
                decodeVersion file1 ! j = decodeVersion file2 ! j"
  shows "compareFiles file1 file2 =
           (if length (decodeVersion file1) > length (decodeVersion file2) then - 1 else 1)"
proof -
  let ?v1 = "decodeVersion file1" and ?v2 = "decodeVersion file2"
  have "compareLoop ?v1 ?v2 (min (length ?v1) (length ?v2)) 0 =
          (if length ?v1 > min (length ?v1) (length ?v2) then - 1 else 1)"
    by (rule compareLoop_agree) (use assms in simp)
  then show ?thesis
    by (auto simp: compareFiles_def Let_def)
qed

lemma cmp_zero: "(cmp a b = 0) = (a = b)"
  by (auto simp: cmp_def)

lemma cmp_differ: "a \<noteq> b \<Longrightarrow> cmp a b = (if a > b then - 1 else 1)"
  unfolding cmp_def by (cases "a > b") simp_all

lemma compareLoop_differ:
  "k < nibbles \<Longrightarrow> i \<le> k \<Longrightarrow> (\<And>j. i \<le> j \<Longrightarrow> j < k \<Longrightarrow> v1 ! j = v2 ! j) \<Longrightarrow>
   v1 ! k \<noteq> v2 ! k \<Longrightarrow> compareLoop v1 v2 nibbles i = cmp (v1 ! k) (v2 ! k)"
proof (induction v1 v2 nibbles i rule: compareLoop.induct)
  case (1 v1 v2 nibbles i)
  from "1.prems" have below: "i < nibbles"
    by simp
  show ?case
  proof (cases "i = k")
    case True
    with "1.prems" have "cmp (v1 ! i) (v2 ! i) \<noteq> 0"
      by (simp add: cmp_zero)
    with below True show ?thesis
      by (subst compareLoop.simps) (simp add: Let_def)
  next
    case False
    with "1.prems" have "i < k"
      by simp
    with "1.prems" have same: "cmp (v1 ! i) (v2 ! i) = 0"
      by (simp add: cmp_zero)
    have "compareLoop v1 v2 nibbles (i + 1) = cmp (v1 ! k) (v2 ! k)"
      using below same \<open>i < k\<close> "1.prems" by (intro "1.IH") auto
    with below same show ?thesis
      by (subst compareLoop.simps) simp
  qed
qed

lemma compareFiles_differ:
  assumes "k < min (length (decodeVersion file1)) (length (decodeVersion file2))"
    and "\<And>j. j < k \<Longrightarrow> decodeVersion file1 ! j = decodeVersion file2 ! j"
    and "decodeVersion file1 ! k \<noteq> decodeVersion file2 ! k"
  shows "compareFiles file1 file2 = cmp (decodeVersion file1 ! k) (decodeVersion file2 ! k)"
  unfolding compareFiles_def Let_def
  by (rule compareLoop_differ) (use assms in simp_all)

lemma split_on_example: "split_on (CHR ''.'') ''3.5.4'' = [''3'', ''5'', ''4'']"
  by simp

text \<open>
  C9. \<open>compareFiles\<close> orders version components as strings. The first component in which
  two versions differ decides, by the order of strings and the larger string first: so
  \<open>3.9\<close> comes before \<open>3.8\<close>, but \<open>3.10\<close> comes after \<open>3.9\<close>, in both orders of the
  arguments (a positive result puts the first file behind the second). Whenever two files
  agree on all components they have in common, equal versions included, the result is not
  0: it is \<open>-1\<close> when the first version has more components and \<open>1\<close> otherwise.
\<close>

theorem compareFiles_string_order_never_zero:
  "cmp ''10'' ''9'' = 1 \<and> cmp ''9'' ''8'' = - 1 \<and>
   compareFiles \<lparr>file_name = a, system = s, version = ''3.10'', suffix = x\<rparr>
                \<lparr>file_name = b, system = s, version = ''3.9'', suffix = x\<rparr> = 1 \<and>
   compareFiles \<lparr>file_name = b, system = s, version = ''3.9'', suffix = x\<rparr>
                \<lparr>file_name = a, system = s, version = ''3.10'', suffix = x\<rparr> = - 1 \<and>
   compareFiles \<lparr>file_name = a, system = s, version = ''3.9'', suffix = x\<rparr>
                \<lparr>file_name = b, system = s, version = ''3.8'', suffix = x\<rparr> = - 1 \<and>
   compareFiles \<lparr>file_name = b, system = s, version = ''3.8'', suffix = x\<rparr>
                \<lparr>file_name = a, system = s, version = ''3.9'', suffix = x\<rparr> = 1 \<and>
   (\<forall>file1 file2 k.
      k < min (length (decodeVersion file1)) (length (decodeVersion file2)) \<and>
      (\<forall>j < k. decodeVersion file1 ! j = decodeVersion file2 ! j) \<and>
      decodeVersion file1 ! k \<noteq> decodeVersion file2 ! k \<longrightarrow>
      compareFiles file1 file2 =
        (if decodeVersion file1 ! k > decodeVersion file2 ! k then - 1 else 1)) \<and>
   (\<forall>file1 file2.
      (\<forall>j < min (length (decodeVersion file1)) (length (decodeVersion file2)).
          decodeVersion file1 ! j = decodeVersion file2 ! j) \<longrightarrow>
      compareFiles file1 file2 \<noteq> 0 \<and>
      compareFiles file1 file2 =
        (if length (decodeVersion file1) > length (decodeVersion file2) then - 1 else 1)) \<and>
   (\<forall>file1 file2. version file1 = version file2 \<longrightarrow> compareFiles file1 file2 = 1) \<and>
   (\<forall>file1 file2. compareFiles file1 file2 \<noteq> 0)"
proof (intro conjI allI impI)
  show "cmp ''10'' ''9'' = 1"
    by (simp add: cmp_def)
  show "cmp ''9'' ''8'' = - 1"
    by (simp add: cmp_def)
  show "compareFiles \<lparr>file_name = a, system = s, version = ''3.10'', suffix = x\<rparr>
                     \<lparr>file_name = b, system = s, version = ''3.9'', suffix = x\<rparr> = 1"
    by (simp add: compareFiles_def decodeVersion_def Let_def cmp_def compareLoop.simps)
  show "compareFiles \<lparr>file_name = b, system = s, version = ''3.9'', suffix = x\<rparr>
                     \<lparr>file_name = a, system = s, version = ''3.10'', suffix = x\<rparr> = - 1"
    by (simp add: compareFiles_def decodeVersion_def Let_def cmp_def compareLoop.simps)
  show "compareFiles \<lparr>file_name = a, system = s, version = ''3.9'', suffix = x\<rparr>
                     \<lparr>file_name = b, system = s, version = ''3.8'', suffix = x\<rparr> = - 1"
    by (simp add: compareFiles_def decodeVersion_def Let_def cmp_def compareLoop.simps)
  show "compareFiles \<lparr>file_name = b, system = s, version = ''3.8'', suffix = x\<rparr>
                     \<lparr>file_name = a, system = s, version = ''3.9'', suffix = x\<rparr> = 1"
    by (simp add: compareFiles_def decodeVersion_def Let_def cmp_def compareLoop.simps)
next
  fix file1 file2 k
  assume a: "k < min (length (decodeVersion file1)) (length (decodeVersion file2)) \<and>
      (\<forall>j < k. decodeVersion file1 ! j = decodeVersion file2 ! j) \<and>
      decodeVersion file1 ! k \<noteq> decodeVersion file2 ! k"
  then have "compareFiles file1 file2 =
               cmp (decodeVersion file1 ! k) (decodeVersion file2 ! k)"
    by (intro compareFiles_differ) simp_all
  moreover from a have "decodeVersion file1 ! k \<noteq> decodeVersion file2 ! k"
    by simp
  ultimately show "compareFiles file1 file2 =
        (if decodeVersion file1 ! k > decodeVersion file2 ! k then - 1 else 1)"
    by (simp add: cmp_differ)
next
  fix file1 file2
  assume "\<forall>j < min (length (decodeVersion file1)) (length (decodeVersion file2)).
            decodeVersion file1 ! j = decodeVersion file2 ! j"
  then show "compareFiles file1 file2 \<noteq> 0"
    by (simp add: compareFiles_nonzero)
next
  fix file1 file2
  assume "\<forall>j < min (length (decodeVersion file1)) (length (decodeVersion file2)).
            decodeVersion file1 ! j = decodeVersion file2 ! j"
  then show "compareFiles file1 file2 =
        (if length (decodeVersion file1) > length (decodeVersion file2) then - 1 else 1)"
    by (intro compareFiles_agree) simp
next
  fix file1 file2 :: archive
  assume "version file1 = version file2"
  then have "decodeVersion file1 = decodeVersion file2"
    by (simp add: decodeVersion_def)
  then show "compareFiles file1 file2 = 1"
    using compareFiles_agree [of file1 file2] by simp
next
  fix file1 file2
  show "compareFiles file1 file2 \<noteq> 0"
    by (rule compareFiles_nonzero)
qed

theorem compareFiles_string_order_never_zero_witness:
  "decodeVersion \<lparr>file_name = ''libxl-lin-3.5.tar.gz'', system = ''lin'', version = ''3.5'',
                   suffix = ''tar.gz''\<rparr> = [''3'', ''5''] \<and>
   decodeVersion \<lparr>file_name = ''libxl-lin-3.5.4.tar.gz'', system = ''lin'', version = ''3.5.4'',
                   suffix = ''tar.gz''\<rparr> = [''3'', ''5'', ''4''] \<and>
   compareFiles
     \<lparr>file_name = ''libxl-lin-3.5.tar.gz'', system = ''lin'', version = ''3.5'',
      suffix = ''tar.gz''\<rparr>
     \<lparr>file_name = ''libxl-lin-3.5.4.tar.gz'', system = ''lin'', version = ''3.5.4'',
      suffix = ''tar.gz''\<rparr> = 1 \<and>
   compareFiles
     \<lparr>file_name = ''libxl-lin-3.5.4.tar.gz'', system = ''lin'', version = ''3.5.4'',
      suffix = ''tar.gz''\<rparr>
     \<lparr>file_name = ''libxl-lin-3.5.tar.gz'', system = ''lin'', version = ''3.5'',
      suffix = ''tar.gz''\<rparr> = - 1 \<and>
   compareFiles
     \<lparr>file_name = ''libxl-lin-3.5.4.tar.gz'', system = ''lin'', version = ''3.5.4'',
      suffix = ''tar.gz''\<rparr>
     \<lparr>file_name = ''libxl-lin-3.5.4.tar.gz'', system = ''lin'', version = ''3.5.4'',
      suffix = ''tar.gz''\<rparr> = 1 \<and>
   decodeVersion \<lparr>file_name = ''libxl-lin-3.10.1.tar.gz'', system = ''lin'',
                   version = ''3.10.1'', suffix = ''tar.gz''\<rparr> = [''3'', ''10'', ''1''] \<and>
   ''5'' > ''10'' \<and>
   compareFiles
     \<lparr>file_name = ''libxl-lin-3.5.4.tar.gz'', system = ''lin'', version = ''3.5.4'',
      suffix = ''tar.gz''\<rparr>
     \<lparr>file_name = ''libxl-lin-3.10.1.tar.gz'', system = ''lin'', version = ''3.10.1'',
      suffix = ''tar.gz''\<rparr> = - 1 \<and>
   compareFiles
     \<lparr>file_name = ''libxl-lin-3.10.1.tar.gz'', system = ''lin'', version = ''3.10.1'',
      suffix = ''tar.gz''\<rparr>
     \<lparr>file_name = ''libxl-lin-3.5.4.tar.gz'', system = ''lin'', version = ''3.5.4'',
      suffix = ''tar.gz''\<rparr> = 1"
proof -
  let ?short = "\<lparr>file_name = ''libxl-lin-3.5.tar.gz'', system = ''lin'', version = ''3.5'',
                 suffix = ''tar.gz''\<rparr>"
  let ?long = "\<lparr>file_name = ''libxl-lin-3.5.4.tar.gz'', system = ''lin'', version = ''3.5.4'',
                suffix = ''tar.gz''\<rparr>"
  let ?ten = "\<lparr>file_name = ''libxl-lin-3.10.1.tar.gz'', system = ''lin'', version = ''3.10.1'',
               suffix = ''tar.gz''\<rparr>"
  have s: "decodeVersion ?short = [''3'', ''5'']"
    by (simp add: decodeVersion_def)
  have l: "decodeVersion ?long = [''3'', ''5'', ''4'']"
    by (simp add: decodeVersion_def)
  have t: "decodeVersion ?ten = [''3'', ''10'', ''1'']"
    by (simp add: decodeVersion_def)
  have order: "''5'' > ''10''"
    by simp
  have agree: "\<forall>j < 2. [''3'', ''5''] ! j = [''3'', ''5'', ''4''] ! j"
    by (simp add: less_Suc_eq numeral_2_eq_2)
  have agree': "\<forall>j < 2. [''3'', ''5'', ''4''] ! j = [''3'', ''5''] ! j"
    by (simp add: less_Suc_eq numeral_2_eq_2)
  note inst = compareFiles_string_order_never_zero [of "''a''" "''s''" "''x''" "''b''"]
  from inst have "(\<forall>j < min (length (decodeVersion ?short)) (length (decodeVersion ?long)).
                     decodeVersion ?short ! j = decodeVersion ?long ! j) \<longrightarrow>
                  compareFiles ?short ?long =
                    (if length (decodeVersion ?short) > length (decodeVersion ?long)
                     then - 1 else 1)"
    by blast
  with agree have 1: "compareFiles ?short ?long = 1"
    unfolding s l by simp
  from inst have "(\<forall>j < min (length (decodeVersion ?long)) (length (decodeVersion ?short)).
                     decodeVersion ?long ! j = decodeVersion ?short ! j) \<longrightarrow>
                  compareFiles ?long ?short =
                    (if length (decodeVersion ?long) > length (decodeVersion ?short)
                     then - 1 else 1)"
    by blast
  with agree' have 2: "compareFiles ?long ?short = - 1"
    unfolding s l by simp
  from inst have 3: "compareFiles ?long ?long = 1"
    by simp
  from inst have "1 < min (length (decodeVersion ?long)) (length (decodeVersion ?ten)) \<and>
                  (\<forall>j < 1. decodeVersion ?long ! j = decodeVersion ?ten ! j) \<and>
                  decodeVersion ?long ! 1 \<noteq> decodeVersion ?ten ! 1 \<longrightarrow>
                  compareFiles ?long ?ten =
                    (if decodeVersion ?long ! 1 > decodeVersion ?ten ! 1 then - 1 else 1)"
    by blast
  then have 4: "compareFiles ?long ?ten = - 1"
    unfolding l t by simp
  from inst have "1 < min (length (decodeVersion ?ten)) (length (decodeVersion ?long)) \<and>
                  (\<forall>j < 1. decodeVersion ?ten ! j = decodeVersion ?long ! j) \<and>
                  decodeVersion ?ten ! 1 \<noteq> decodeVersion ?long ! 1 \<longrightarrow>
                  compareFiles ?ten ?long =
                    (if decodeVersion ?ten ! 1 > decodeVersion ?long ! 1 then - 1 else 1)"
    by blast
  then have 5: "compareFiles ?ten ?long = 1"
    unfolding l t by simp
  from s l 1 2 3 t order 4 5 show ?thesis
    by (intro conjI)
qed

section \<open>Callbacks of the asynchronous workers\<close>

lemma Execute_raised:
  "native_failed book w \<Longrightarrow> errmsg (Execute book w) = Some (errorMessage book)"
proof (cases w)
  case (GetPictureWorker i)
  assume "native_failed book w"
  with GetPictureWorker show ?thesis
    by (cases "getPicture book i") (simp add: RaiseLibxlError_def Let_def)
qed (simp_all add: RaiseLibxlError_def Let_def)

lemma Execute_clean:
  "\<not> native_failed book w \<Longrightarrow> errmsg (Execute book w) = None"
proof (cases w)
  case (GetPictureWorker i)
  assume "\<not> native_failed book w"
  with GetPictureWorker show ?thesis
    by (cases "getPicture book i") (simp add: fresh_def Let_def)
qed (auto simp add: fresh_def Let_def)

lemma HandleOKCallback_after_Execute:
  "\<not> native_failed book w \<Longrightarrow>
   \<exists>rest. HandleOKCallback w (Execute book w) = Some [rest] \<and> argument rest 0 = Undefined
           \<and> list_all (\<lambda>v. \<forall>m. v \<noteq> Error m) rest"
proof (cases w)
  case (GetPictureWorker i)
  assume "\<not> native_failed book w"
  with GetPictureWorker show ?thesis
    by (cases "getPicture book i") (simp add: fresh_def Let_def argument_def)
next
  case WriteRawWorker
  assume "\<not> native_failed book w"
  with WriteRawWorker show ?thesis
    by (cases "saveRaw book") (simp_all add: fresh_def argument_def)
qed (simp_all add: fresh_def Let_def argument_def default_HandleOKCallback_def)

text \<open>
  C1. Whatever the native call of a queued worker returns, completing the worker invokes
  the callback exactly once: the calls of the callback are a list of one element.
\<close>

theorem callback_invoked_exactly_once:
  "\<exists>args. run_worker book w = Some [args]"
proof (cases "native_failed book w")
  case True
  then show ?thesis
    by (simp add: run_worker_def WorkComplete_def Execute_raised HandleErrorCallback_def)
next
  case False
  with HandleOKCallback_after_Execute [of book w] show ?thesis
    by (auto simp: run_worker_def WorkComplete_def Execute_clean)
qed

theorem callback_invoked_exactly_once_witness:
  "run_worker book0 (LoadWorker ''missing.xls'') = Some [[Error ''can not open file'']] \<and>
   run_worker book0 WriteRawWorker = Some [[Undefined, Buffer [80, 75, 3]]]"
proof -
  obtain a where a: "run_worker book0 (LoadWorker ''missing.xls'') = Some [a]"
    using callback_invoked_exactly_once [of book0 "LoadWorker ''missing.xls''"] by blast
  obtain b where b: "run_worker book0 WriteRawWorker = Some [b]"
    using callback_invoked_exactly_once [of book0 WriteRawWorker] by blast
  have "run_worker book0 (LoadWorker ''missing.xls'') = Some [[Error ''can not open file'']]"
    by (simp add: run_worker_def WorkComplete_def book0_def RaiseLibxlError_def fresh_def
        HandleErrorCallback_def)
  moreover have "run_worker book0 WriteRawWorker = Some [[Undefined, Buffer [80, 75, 3]]]"
    by (simp add: run_worker_def WorkComplete_def book0_def fresh_def)
  ultimately show ?thesis
    using a b by simp
qed

text \<open>
  C2. When the native call of a worker fails, the callback receives the error message of
  the native library as its first argument and nothing else. When it succeeds, the first
  argument the callback sees is undefined, no argument is an error, and the results follow:
  the saved data for \<open>writeRaw\<close>, the picture type and the data for \<open>getPictureAsync\<close>, the
  index for \<open>addPictureAsync\<close>, nothing for \<open>load\<close>, \<open>write\<close> and \<open>loadRaw\<close>.
\<close>

theorem callback_arguments:
  "(native_failed book w \<longrightarrow> run_worker book w = Some [[Error (errorMessage book)]]) \<and>
   (\<not> native_failed book w \<longrightarrow>
      (\<exists>args. run_worker book w = Some [args] \<and> argument args 0 = Undefined \<and>
              list_all (\<lambda>v. \<forall>m. v \<noteq> Error m) args)) \<and>
   (load book f \<longrightarrow> run_worker book (LoadWorker f) = Some [[]]) \<and>
   (save book f \<longrightarrow> run_worker book (WriteWorker f) = Some [[]]) \<and>
   (loadRaw book d \<longrightarrow> run_worker book (LoadRawWorker d) = Some [[]]) \<and>
   (saveRaw book = Some d \<longrightarrow>
      run_worker book WriteRawWorker = Some [[Undefined, Buffer d]]) \<and>
   (getPicture book i = (t, d) \<and> t \<noteq> PICTURETYPE_ERROR book \<longrightarrow>
      run_worker book (GetPictureWorker i) = Some [[Undefined, Integer t, Buffer d]]) \<and>
   (addPicture book f \<noteq> - 1 \<longrightarrow>
      run_worker book (AddPictureFileWorker f) = Some [[Undefined, Integer (addPicture book f)]]) \<and>
   (addPicture2 book d \<noteq> - 1 \<longrightarrow>
      run_worker book (AddPictureBufferWorker d) =
        Some [[Undefined, Integer (addPicture2 book d)]])"
proof (intro conjI impI)
  assume "native_failed book w"
  then show "run_worker book w = Some [[Error (errorMessage book)]]"
    by (simp add: run_worker_def WorkComplete_def Execute_raised HandleErrorCallback_def)
next
  assume "\<not> native_failed book w"
  with HandleOKCallback_after_Execute [of book w]
  show "\<exists>args. run_worker book w = Some [args] \<and> argument args 0 = Undefined \<and>
              list_all (\<lambda>v. \<forall>m. v \<noteq> Error m) args"
    by (auto simp: run_worker_def WorkComplete_def Execute_clean)
next
  assume "load book f"
  then show "run_worker book (LoadWorker f) = Some [[]]"
    by (simp add: run_worker_def WorkComplete_def fresh_def default_HandleOKCallback_def)
next
  assume "save book f"
  then show "run_worker book (WriteWorker f) = Some [[]]"
    by (simp add: run_worker_def WorkComplete_def fresh_def default_HandleOKCallback_def)
next
  assume "loadRaw book d"
  then show "run_worker book (LoadRawWorker d) = Some [[]]"
    by (simp add: run_worker_def WorkComplete_def fresh_def default_HandleOKCallback_def)
next
  assume "saveRaw book = Some d"
  then show "run_worker book WriteRawWorker = Some [[Undefined, Buffer d]]"
    by (simp add: run_worker_def WorkComplete_def fresh_def)
next
  assume "getPicture book i = (t, d) \<and> t \<noteq> PICTURETYPE_ERROR book"
  then show "run_worker book (GetPictureWorker i) = Some [[Undefined, Integer t, Buffer d]]"
    by (simp add: run_worker_def WorkComplete_def fresh_def Let_def)
next
  assume "addPicture book f \<noteq> - 1"
  then show "run_worker book (AddPictureFileWorker f) =
               Some [[Undefined, Integer (addPicture book f)]]"
    by (simp add: run_worker_def WorkComplete_def fresh_def Let_def)
next
  assume "addPicture2 book d \<noteq> - 1"
  then show "run_worker book (AddPictureBufferWorker d) =
               Some [[Undefined, Integer (addPicture2 book d)]]"
    by (simp add: run_worker_def WorkComplete_def fresh_def Let_def)
qed

theorem callback_arguments_witness:
  "native_failed book0 (LoadRawWorker [1, 2]) \<and>
   run_worker book0 (LoadRawWorker [1, 2]) = Some [[Error ''can not open file'']] \<and>
   native_failed book0 (GetPictureWorker 7) \<and>
   run_worker book0 (GetPictureWorker 7) = Some [[Error ''can not open file'']] \<and>
   \<not> native_failed book0 (LoadWorker ''in.xls'') \<and>
   run_worker book0 (LoadWorker ''in.xls'') = Some [[]] \<and>
   argument [] 0 = Undefined \<and>
   saveRaw book0 = Some [80, 75, 3] \<and>
   run_worker book0 WriteRawWorker = Some [[Undefined, Buffer [80, 75, 3]]] \<and>
   getPicture book0 0 = (1, [255, 216]) \<and> 1 \<noteq> PICTURETYPE_ERROR book0 \<and>
   run_worker book0 (GetPictureWorker 0) = Some [[Undefined, Integer 1, Buffer [255, 216]]] \<and>
   addPicture2 book0 [9] \<noteq> - 1 \<and>
   run_worker book0 (AddPictureBufferWorker [9]) = Some [[Undefined, Integer 4]]"
proof -
  have f1: "native_failed book0 (LoadRawWorker [1, 2])"
    and f2: "native_failed book0 (GetPictureWorker 7)"
    and ok: "\<not> native_failed book0 (LoadWorker ''in.xls'')" "load book0 ''in.xls''"
    and raw: "saveRaw book0 = Some [80, 75, 3]"
    and pic: "getPicture book0 0 = (1, [255, 216]) \<and> 1 \<noteq> PICTURETYPE_ERROR book0"
    and add: "addPicture2 book0 [9] \<noteq> - 1" "addPicture2 book0 [9] = 4"
    and msg: "errorMessage book0 = ''can not open file''"
    by (simp_all add: book0_def)
  note a = callback_arguments [of book0 "LoadRawWorker [1, 2]" "''in.xls''" "[9]" 0 1]
  note b = callback_arguments [of book0 "GetPictureWorker 7" "''in.xls''" "[255, 216]" 0 1]
  note c = callback_arguments [of book0 WriteRawWorker "''in.xls''" "[80, 75, 3]" 0 1]
  have "run_worker book0 (LoadRawWorker [1, 2]) = Some [[Error ''can not open file'']]"
    using a f1 msg by simp
  moreover have "run_worker book0 (GetPictureWorker 7) = Some [[Error ''can not open file'']]"
    using b f2 msg by simp
  moreover have "run_worker book0 (LoadWorker ''in.xls'') = Some [[]]"
    using a ok by simp
  moreover have "run_worker book0 WriteRawWorker = Some [[Undefined, Buffer [80, 75, 3]]]"
    using c raw by simp
  moreover have "run_worker book0 (GetPictureWorker 0) =
                   Some [[Undefined, Integer 1, Buffer [255, 216]]]"
    using b pic by simp
  moreover have "run_worker book0 (AddPictureBufferWorker [9]) = Some [[Undefined, Integer 4]]"
    using a add by simp
  moreover have "argument [] 0 = Undefined"
    by (simp add: argument_def)
  ultimately show ?thesis
    using f1 f2 ok raw pic add by simp
qed

section \<open>The search for the license file\<close>

lemma find_license_unfold:
  "find_license e d =
     (if existsSync e (Abs (abs_join d licenseFilename)) then Some (abs_join d licenseFilename)
      else if resolve_parent d = d then None
      else find_license e (resolve_parent d))"
  by (subst find_license.simps) (simp add: Let_def)

lemma butlast_fixed: "(butlast ns = ns) = (ns = [])"
  by (cases ns rule: rev_cases) simp_all

lemma resolve_parent_fixed: "(resolve_parent d = d) = (depth d = 0)"
  by (cases d) (simp add: butlast_fixed)

lemma resolve_parent_depth: "depth (resolve_parent d) = depth d - 1"
  by (cases d) simp

lemma find_license_steps_enough:
  "depth d < n \<Longrightarrow> find_license_steps n e d = Some (find_license e d)"
proof (induction n arbitrary: d)
  case 0
  then show ?case by simp
next
  case (Suc n)
  show ?case
  proof (cases "existsSync e (Abs (abs_join d licenseFilename)) \<or> resolve_parent d = d")
    case True
    then show ?thesis
      by (subst find_license_unfold) (auto simp: Let_def)
  next
    case False
    then have "depth d \<noteq> 0"
      by (simp add: resolve_parent_fixed)
    with Suc.prems have "depth (resolve_parent d) < n"
      by (simp add: resolve_parent_depth)
    then have "find_license_steps n e (resolve_parent d) = Some (find_license e (resolve_parent d))"
      by (rule Suc.IH)
    with False show ?thesis
      by (subst find_license_unfold) (simp add: Let_def)
  qed
qed

lemma find_license_None:
  "(find_license e d = None) =
   (\<forall>k \<le> depth d. \<not> existsSync e (Abs (abs_join ((resolve_parent ^^ k) d) licenseFilename)))"
proof (induction e d rule: find_license.induct)
  case (1 e d)
  show ?case
  proof (cases "existsSync e (Abs (abs_join d licenseFilename))")
    case True
    then have "find_license e d \<noteq> None"
      by (subst find_license_unfold) simp
    moreover from True have "\<exists>k \<le> depth d. existsSync e (Abs (abs_join ((resolve_parent ^^ k) d) licenseFilename))"
      by (intro exI [of _ 0]) simp
    ultimately show ?thesis by blast
  next
    case absent: False
    show ?thesis
    proof (cases "resolve_parent d = d")
      case True
      with absent have "find_license e d = None"
        by (subst find_license_unfold) simp
      moreover from True absent have "\<forall>k \<le> depth d. \<not> existsSync e (Abs (abs_join ((resolve_parent ^^ k) d) licenseFilename))"
        by (simp add: resolve_parent_fixed)
      ultimately show ?thesis by blast
    next
      case False
      let ?p = "resolve_parent d"
      let ?ex = "\<lambda>x. existsSync e (Abs (abs_join x licenseFilename))"
      from False have pos: "depth d = Suc (depth ?p)"
        by (simp add: resolve_parent_fixed resolve_parent_depth)
      have IH: "(find_license e ?p = None) = (\<forall>k \<le> depth ?p. \<not> ?ex ((resolve_parent ^^ k) ?p))"
        using absent False by (intro "1.IH") auto
      have "find_license e d = find_license e ?p"
        using absent False by (subst find_license_unfold) simp
      moreover have "(\<forall>k \<le> depth d. \<not> ?ex ((resolve_parent ^^ k) d)) =
                     (\<forall>k \<le> depth ?p. \<not> ?ex ((resolve_parent ^^ k) ?p))"
      proof
        assume all: "\<forall>k \<le> depth d. \<not> ?ex ((resolve_parent ^^ k) d)"
        show "\<forall>k \<le> depth ?p. \<not> ?ex ((resolve_parent ^^ k) ?p)"
        proof (intro allI impI)
          fix k assume "k \<le> depth ?p"
          with pos have "Suc k \<le> depth d" by simp
          with all have "\<not> ?ex ((resolve_parent ^^ Suc k) d)" by blast
          then show "\<not> ?ex ((resolve_parent ^^ k) ?p)"
            by (simp add: funpow_swap1)
        qed
      next
        assume all: "\<forall>k \<le> depth ?p. \<not> ?ex ((resolve_parent ^^ k) ?p)"
        show "\<forall>k \<le> depth d. \<not> ?ex ((resolve_parent ^^ k) d)"
        proof (intro allI impI)
          fix k assume k: "k \<le> depth d"
          show "\<not> ?ex ((resolve_parent ^^ k) d)"
          proof (cases k)
            case 0
            with absent show ?thesis by simp
          next
            case (Suc j)
            with k pos have "j \<le> depth ?p" by simp
            with all have "\<not> ?ex ((resolve_parent ^^ j) ?p)" by blast
            with Suc show ?thesis by (simp add: funpow_swap1)
          qed
        qed
      qed
      ultimately show ?thesis
        using IH by simp
    qed
  qed
qed

lemma find_license_Some:
  "find_license e d = Some p \<Longrightarrow>
   \<exists>k \<le> depth d. p = abs_join ((resolve_parent ^^ k) d) licenseFilename \<and> existsSync e (Abs p)"
proof (induction e d rule: find_license.induct)
  case (1 e d)
  show ?case
  proof (cases "existsSync e (Abs (abs_join d licenseFilename))")
    case True
    with "1.prems" have "p = abs_join d licenseFilename"
      by (subst (asm) find_license_unfold) simp
    with True show ?thesis
      by (intro exI [of _ 0]) simp
  next
    case absent: False
    let ?p = "resolve_parent d"
    from absent "1.prems" have moved: "?p \<noteq> d" and found: "find_license e ?p = Some p"
      by (subst (asm) find_license_unfold, simp split: if_splits)+
    from moved have pos: "depth d = Suc (depth ?p)"
      by (simp add: resolve_parent_fixed resolve_parent_depth)
    from "1.IH" [OF refl absent moved found]
    obtain k where "k \<le> depth ?p" "p = abs_join ((resolve_parent ^^ k) ?p) licenseFilename"
      "existsSync e (Abs p)"
      by blast
    with pos show ?thesis
      by (intro exI [of _ "Suc k"]) (simp add: funpow_swap1)
  qed
qed


text \<open>
  C8. The upward search for the license file ends for every starting directory: within
  one more iteration than the directory is deep. An iteration finds the file in the
  current directory, or goes on in the parent, or stops at the root, which is its own
  parent. The search fails exactly when no directory from the start up to the root holds
  the file, and then the script prints its message and exits with code 1.
\<close>

theorem license_search_terminates:
  "find_license_steps (Suc (depth d)) e d = Some (find_license e d) \<and>
   find_license e d =
     (if existsSync e (Abs (abs_join d licenseFilename)) then Some (abs_join d licenseFilename)
      else if resolve_parent d = d then None
      else find_license e (resolve_parent d)) \<and>
   (resolve_parent d = d) = (depth d = 0) \<and>
   depth (resolve_parent d) = depth d - 1 \<and>
   (find_license e d = None) =
     (\<forall>k \<le> depth d.
        \<not> existsSync e (Abs (abs_join ((resolve_parent ^^ k) d) licenseFilename))) \<and>
   (find_license e d = Some p \<longrightarrow>
      (\<exists>k \<le> depth d. p = abs_join ((resolve_parent ^^ k) d) licenseFilename \<and>
                      existsSync e (Abs p))) \<and>
   (find_license e (dirname e) = None \<longrightarrow>
      apply_license e = ([Log ''Cannot locate libxl-license.json; terminating''], Exit 1))"
proof (intro conjI impI)
  show "find_license_steps (Suc (depth d)) e d = Some (find_license e d)"
    by (rule find_license_steps_enough) simp
  show "find_license e d =
     (if existsSync e (Abs (abs_join d licenseFilename)) then Some (abs_join d licenseFilename)
      else if resolve_parent d = d then None
      else find_license e (resolve_parent d))"
    by (rule find_license_unfold)
  show "(resolve_parent d = d) = (depth d = 0)"
    by (rule resolve_parent_fixed)
  show "depth (resolve_parent d) = depth d - 1"
    by (rule resolve_parent_depth)
  show "(find_license e d = None) =
     (\<forall>k \<le> depth d.
        \<not> existsSync e (Abs (abs_join ((resolve_parent ^^ k) d) licenseFilename)))"
    by (rule find_license_None)
next
  assume "find_license e d = Some p"
  then show "\<exists>k \<le> depth d. p = abs_join ((resolve_parent ^^ k) d) licenseFilename \<and>
                      existsSync e (Abs p)"
    by (rule find_license_Some)
next
  assume "find_license e (dirname e) = None"
  then show "apply_license e = ([Log ''Cannot locate libxl-license.json; terminating''], Exit 1)"
    by (simp add: apply_license_def locate_def then_run_def log_def exit_with_def)
qed

theorem license_search_terminates_witness:
  "find_license_steps 3 (host license_above licenses0) (AbsPath ''/'' [''home'', ''app'']) =
     Some (Some (AbsPath ''/'' [''home'', ''libxl-license.json''])) \<and>
   find_license (host license_above licenses0) (AbsPath ''/'' [''home'', ''app'']) =
     Some (AbsPath ''/'' [''home'', ''libxl-license.json'']) \<and>
   existsSync (host license_above licenses0)
     (Abs (AbsPath ''/'' [''home'', ''libxl-license.json''])) \<and>
   find_license (host nothing licenses0) (dirname (host nothing licenses0)) = None \<and>
   apply_license (host nothing licenses0) =
     ([Log ''Cannot locate libxl-license.json; terminating''], Exit 1)"
proof -
  let ?d = "AbsPath ''/'' [''home'', ''app'']"
  have steps: "find_license_steps 3 (host license_above licenses0) ?d =
                 Some (Some (AbsPath ''/'' [''home'', ''libxl-license.json'']))"
    by (simp add: numeral_3_eq_3 host_def license_above_def licenseFilename_def Let_def)
  have depth: "Suc (depth ?d) = 3"
    by simp
  note found = license_search_terminates
    [of ?d "host license_above licenses0" "AbsPath ''/'' [''home'', ''libxl-license.json'']"]
  from found steps have 1: "find_license (host license_above licenses0) ?d =
      Some (AbsPath ''/'' [''home'', ''libxl-license.json''])"
    unfolding depth by simp
  with found have 2: "existsSync (host license_above licenses0)
      (Abs (AbsPath ''/'' [''home'', ''libxl-license.json'']))"
    by blast
  note lost = license_search_terminates
    [of "dirname (host nothing licenses0)" "host nothing licenses0" "AbsPath [] []"]
  have "\<forall>k \<le> depth (dirname (host nothing licenses0)).
          \<not> existsSync (host nothing licenses0)
              (Abs (abs_join ((resolve_parent ^^ k) (dirname (host nothing licenses0)))
                 licenseFilename))"
    by (simp add: host_def nothing_def)
  with lost have 3: "find_license (host nothing licenses0) (dirname (host nothing licenses0)) = None"
    by blast
  with lost have 4: "apply_license (host nothing licenses0) =
     ([Log ''Cannot locate libxl-license.json; terminating''], Exit 1)"
    by blast
  from steps 1 2 3 4 show ?thesis
    by (intro conjI)
qed


section \<open>Selecting the key and writing the header\<close>

lemma select_license_name:
  "select_license e licenses =
     keys_entry licenses
       (if prefix ''win'' (platform e) then ''windows''
        else if prefix ''darwin'' (platform e) then ''mac'' else ''linux'')"
  by (simp add: select_license_def isWin_def isMac_def)

lemma select_license_silent: "fst (select_license e licenses) = []"
  by (simp add: select_license_def keys_entry_def then_run_def value_of_def
      split: sum.splits prod.splits outcome.splits)

lemma embed_license_falsy:
  assumes "select_license e licenses = ([], Continue license)" "\<not> truthy license"
  shows "embed_license e licenses =
           ([Log ''Cannot find the license key appropriate for this platform in libxl-license.json''],
            Exit 1)"
  using assms by (simp add: embed_license_def then_run_def log_def exit_with_def)

lemma embed_license_thrown:
  assumes "select_license e licenses = ([], Throw x)"
  shows "embed_license e licenses = ([], Throw x)"
  using assms by (simp add: embed_license_def then_run_def)

lemma apply_license_parsed:
  assumes "find_license e (dirname e) = Some p" "readFileSync e (Abs p) = Inr contents"
    "JSON_parse e contents = Inr licenses"
  shows "apply_license e =
           (Log (''Applying licenses from '' @ [dquote] @ path_string e (Abs p) @ [dquote])
              # fst (embed_license e licenses),
            snd (embed_license e licenses))"
  using assms
  by (simp add: apply_license_def locate_def then_run_def log_def value_of_def split: prod.splits)



lemma get_prop_value:
  "get_prop v k = Inl TypeError \<or> (\<exists>w. get_prop v k = Inr w)"
  by (cases "(v, k)" rule: get_prop.cases) simp_all

lemma get_prop_thrown: "(get_prop v k = Inl x) = (x = TypeError \<and> (v = None \<or> v = Some JNull))"
  by (cases "(v, k)" rule: get_prop.cases) auto

lemma keys_entry_throws:
  "(keys_entry licenses name = ([], Throw TypeError)) =
     (licenses = JNull \<or> get_prop (Some licenses) ''keys'' = Inr None \<or>
      get_prop (Some licenses) ''keys'' = Inr (Some JNull))"
proof (cases "get_prop (Some licenses) ''keys''")
  case (Inl x)
  then show ?thesis
    by (simp add: keys_entry_def then_run_def value_of_def get_prop_thrown)
next
  case (Inr keys)
  then have "licenses \<noteq> JNull"
    by auto
  moreover have "(\<exists>x. get_prop keys name = Inl x) = (keys = None \<or> keys = Some JNull)"
    by (auto simp: get_prop_thrown)
  moreover have "get_prop keys name = Inl x \<Longrightarrow> x = TypeError" for x
    by (simp add: get_prop_thrown)
  ultimately show ?thesis
    using Inr
    by (cases "get_prop keys name")
       (auto simp: keys_entry_def then_run_def value_of_def get_prop_thrown)
qed

lemma keys_entry_ends:
  "snd (keys_entry licenses name) = Throw TypeError \<or>
   (\<exists>v. snd (keys_entry licenses name) = Continue v)"
proof -
  from get_prop_value [of "Some licenses" "''keys''"] show ?thesis
  proof
    assume "get_prop (Some licenses) ''keys'' = Inl TypeError"
    then show ?thesis
      by (simp add: keys_entry_def then_run_def value_of_def)
  next
    assume "\<exists>w. get_prop (Some licenses) ''keys'' = Inr w"
    then obtain w where w: "get_prop (Some licenses) ''keys'' = Inr w"
      by blast
    from get_prop_value [of w name] show ?thesis
    proof
      assume "get_prop w name = Inl TypeError"
      with w show ?thesis
        by (simp add: keys_entry_def then_run_def value_of_def)
    next
      assume "\<exists>v. get_prop w name = Inr v"
      then obtain v where "get_prop w name = Inr v"
        by blast
      with w show ?thesis
        by (simp add: keys_entry_def then_run_def value_of_def)
    qed
  qed
qed

lemma host_finds_license:
  "find_license (host license_above l) (dirname (host license_above l)) =
     Some (AbsPath ''/'' [''home'', ''libxl-license.json''])"
  by (simp add: find_license_unfold host_def license_above_def licenseFilename_def)

text \<open>
  C6. The script takes the key named \<open>windows\<close> when the platform starts with \<open>win\<close>, the
  key named \<open>mac\<close> when it starts with \<open>darwin\<close>, and the key named \<open>linux\<close> on every
  other platform. When the selected key is absent or false (undefined, null, false, zero
  or the empty string), the script prints its message and exits with code 1; the header is
  not written. That is also what happens when the license file holds an array, whose
  \<open>keys\<close> is a method without such a property. Only where the file holds \<open>null\<close>, or
  where the property \<open>keys\<close> is undefined or \<open>null\<close>, the key cannot be read: a
  \<open>TypeError\<close> is thrown and ends the script, before the header as well.
\<close>

theorem license_key_selection:
  "select_license e licenses =
     keys_entry licenses
       (if prefix ''win'' (platform e) then ''windows''
        else if prefix ''darwin'' (platform e) then ''mac'' else ''linux'') \<and>
   (platform e = ''darwin'' \<longrightarrow> select_license e licenses = keys_entry licenses ''mac'') \<and>
   (licenses = JObj kvs \<and> map_of kvs ''keys'' = Some (JObj ks) \<longrightarrow>
      keys_entry licenses name = ([], Continue (map_of ks name))) \<and>
   (find_license e (dirname e) = Some p \<and> readFileSync e (Abs p) = Inr contents \<and>
    JSON_parse e contents = Inr licenses \<and>
    select_license e licenses = ([], Continue license) \<and> \<not> truthy license \<longrightarrow>
      apply_license e =
        ([Log (''Applying licenses from '' @ [dquote] @ path_string e (Abs p) @ [dquote]),
          Log ''Cannot find the license key appropriate for this platform in libxl-license.json''],
         Exit 1)) \<and>
   (find_license e (dirname e) = Some p \<and> readFileSync e (Abs p) = Inr contents \<and>
    JSON_parse e contents = Inr licenses \<and>
    select_license e licenses = ([], Throw x) \<longrightarrow>
      apply_license e =
        ([Log (''Applying licenses from '' @ [dquote] @ path_string e (Abs p) @ [dquote])],
         Throw x)) \<and>
   (licenses = JArr xs \<longrightarrow> keys_entry licenses name = ([], Continue None)) \<and>
   (keys_entry licenses name = ([], Throw TypeError)) =
     (licenses = JNull \<or> get_prop (Some licenses) ''keys'' = Inr None \<or>
      get_prop (Some licenses) ''keys'' = Inr (Some JNull)) \<and>
   snd (keys_entry licenses name) \<noteq> Exit n \<and>
   snd (keys_entry licenses name) \<noteq> Throw SyntaxError \<and>
   snd (keys_entry licenses name) \<noteq> Throw (SystemError m)"
proof (intro conjI impI)
  show "select_license e licenses =
     keys_entry licenses
       (if prefix ''win'' (platform e) then ''windows''
        else if prefix ''darwin'' (platform e) then ''mac'' else ''linux'')"
    by (rule select_license_name)
next
  assume "platform e = ''darwin''"
  then show "select_license e licenses = keys_entry licenses ''mac''"
    by (simp add: select_license_name)
next
  assume "licenses = JObj kvs \<and> map_of kvs ''keys'' = Some (JObj ks)"
  then show "keys_entry licenses name = ([], Continue (map_of ks name))"
    by (simp add: keys_entry_def then_run_def value_of_def)
next
  assume a: "find_license e (dirname e) = Some p \<and> readFileSync e (Abs p) = Inr contents \<and>
    JSON_parse e contents = Inr licenses \<and>
    select_license e licenses = ([], Continue license) \<and> \<not> truthy license"
  then have "embed_license e licenses =
      ([Log ''Cannot find the license key appropriate for this platform in libxl-license.json''],
       Exit 1)"
    using embed_license_falsy [of e licenses license] by simp
  with a show "apply_license e =
        ([Log (''Applying licenses from '' @ [dquote] @ path_string e (Abs p) @ [dquote]),
          Log ''Cannot find the license key appropriate for this platform in libxl-license.json''],
         Exit 1)"
    by (simp add: apply_license_parsed [of e p contents licenses])
next
  assume a: "find_license e (dirname e) = Some p \<and> readFileSync e (Abs p) = Inr contents \<and>
    JSON_parse e contents = Inr licenses \<and>
    select_license e licenses = ([], Throw x)"
  then have "embed_license e licenses = ([], Throw x)"
    using embed_license_thrown [of e licenses x] by simp
  with a show "apply_license e =
        ([Log (''Applying licenses from '' @ [dquote] @ path_string e (Abs p) @ [dquote])],
         Throw x)"
    by (simp add: apply_license_parsed [of e p contents licenses])
next
  assume "licenses = JArr xs"
  then show "keys_entry licenses name = ([], Continue None)"
    by (simp add: keys_entry_def then_run_def value_of_def)
next
  show "(keys_entry licenses name = ([], Throw TypeError)) =
     (licenses = JNull \<or> get_prop (Some licenses) ''keys'' = Inr None \<or>
      get_prop (Some licenses) ''keys'' = Inr (Some JNull))"
    by (rule keys_entry_throws)
  show "snd (keys_entry licenses name) \<noteq> Exit n"
    using keys_entry_ends [of licenses name] by auto
  show "snd (keys_entry licenses name) \<noteq> Throw SyntaxError"
    using keys_entry_ends [of licenses name] by auto
  show "snd (keys_entry licenses name) \<noteq> Throw (SystemError m)"
    using keys_entry_ends [of licenses name] by auto
qed

theorem license_key_selection_witness:
  "platform (host license_above licenses_no_linux) = ''linux'' \<and>
   select_license (host license_above licenses_no_linux) licenses_no_linux =
     ([], Continue None) \<and>
   \<not> truthy None \<and>
   apply_license (host license_above licenses_no_linux) =
     ([Log (''Applying licenses from '' @ [dquote] @ ''/home/libxl-license.json'' @ [dquote]),
       Log ''Cannot find the license key appropriate for this platform in libxl-license.json''],
      Exit 1) \<and>
   select_license (host license_above licenses_empty_linux) licenses_empty_linux =
     ([], Continue (Some (JStr []))) \<and>
   \<not> truthy (Some (JStr [])) \<and>
   apply_license (host license_above licenses_empty_linux) =
     ([Log (''Applying licenses from '' @ [dquote] @ ''/home/libxl-license.json'' @ [dquote]),
       Log ''Cannot find the license key appropriate for this platform in libxl-license.json''],
      Exit 1) \<and>
   select_license (host license_above JNull) JNull = ([], Throw TypeError) \<and>
   apply_license (host license_above JNull) =
     ([Log (''Applying licenses from '' @ [dquote] @ ''/home/libxl-license.json'' @ [dquote])],
      Throw TypeError) \<and>
   get_prop (Some licenses_array) ''keys'' = Inr (Some (JFunction ''keys'')) \<and>
   select_license (host license_above licenses_array) licenses_array = ([], Continue None) \<and>
   apply_license (host license_above licenses_array) =
     ([Log (''Applying licenses from '' @ [dquote] @ ''/home/libxl-license.json'' @ [dquote]),
       Log ''Cannot find the license key appropriate for this platform in libxl-license.json''],
      Exit 1)"
proof -
  let ?p = "AbsPath ''/'' [''home'', ''libxl-license.json'']"
  let ?applying = "Log (''Applying licenses from '' @ [dquote] @ ''/home/libxl-license.json''
                        @ [dquote])"
  have pf: "platform (host license_above l) = ''linux''" for l
    by (simp add: host_def)
  have rd: "readFileSync (host license_above l) (Abs ?p) = Inr ''the license''" for l
    by (simp add: host_def)
  have ps: "JSON_parse (host license_above l) ''the license'' = Inr l" for l
    by (simp add: host_def)
  have name: "(if prefix ''win'' (platform (host license_above l)) then ''windows''
               else if prefix ''darwin'' (platform (host license_above l)) then ''mac''
               else ''linux'') = ''linux''" for l
    by (simp add: pf)
  \<comment> \<open>the key for Linux is absent\<close>
  note k1 = license_key_selection
    [where e = "host license_above licenses_no_linux" and licenses = licenses_no_linux
       and kvs = "[(''licensee'', JStr ''Acme Inc''),
                   (''keys'', JObj [(''mac'', JStr ''mac-1''), (''windows'', JStr ''win-2'')])]"
       and ks = "[(''mac'', JStr ''mac-1''), (''windows'', JStr ''win-2'')]"
       and name = "''linux''" and p = ?p and contents = "''the license''" and license = None]
  have "keys_entry licenses_no_linux ''linux'' =
          ([], Continue (map_of [(''mac'', JStr ''mac-1''), (''windows'', JStr ''win-2'')]
                           ''linux''))"
    by (rule k1 [THEN conjunct2, THEN conjunct2, THEN conjunct1, THEN mp])
       (simp add: licenses_no_linux_def)
  then have s1: "select_license (host license_above licenses_no_linux) licenses_no_linux =
                   ([], Continue None)"
    by (simp add: k1 [THEN conjunct1] name)
  have a1: "apply_license (host license_above licenses_no_linux) =
              ([?applying,
                Log ''Cannot find the license key appropriate for this platform in libxl-license.json''],
               Exit 1)"
    using k1 [THEN conjunct2, THEN conjunct2, THEN conjunct2, THEN conjunct1, THEN mp]
      host_finds_license [of licenses_no_linux] rd ps s1
    by (simp add: pf sep_def isWin_def)
  \<comment> \<open>the key for Linux is the empty string\<close>
  note k2 = license_key_selection
    [where e = "host license_above licenses_empty_linux" and licenses = licenses_empty_linux
       and kvs = "[(''licensee'', JStr ''Acme Inc''), (''keys'', JObj [(''linux'', JStr [])])]"
       and ks = "[(''linux'', JStr [])]"
       and name = "''linux''" and p = ?p and contents = "''the license''"
       and license = "Some (JStr [])"]
  have "keys_entry licenses_empty_linux ''linux'' =
          ([], Continue (map_of [(''linux'', JStr [])] ''linux''))"
    by (rule k2 [THEN conjunct2, THEN conjunct2, THEN conjunct1, THEN mp])
       (simp add: licenses_empty_linux_def)
  then have s2: "select_license (host license_above licenses_empty_linux) licenses_empty_linux =
                   ([], Continue (Some (JStr [])))"
    by (simp add: k2 [THEN conjunct1] name)
  have a2: "apply_license (host license_above licenses_empty_linux) =
              ([?applying,
                Log ''Cannot find the license key appropriate for this platform in libxl-license.json''],
               Exit 1)"
    using k2 [THEN conjunct2, THEN conjunct2, THEN conjunct2, THEN conjunct1, THEN mp]
      host_finds_license [of licenses_empty_linux] rd ps s2
    by (simp add: pf sep_def isWin_def)
  \<comment> \<open>the file holds null\<close>
  note k3 = license_key_selection
    [where e = "host license_above JNull" and licenses = JNull and name = "''linux''"
       and p = ?p and contents = "''the license''" and x = TypeError]
  have "keys_entry JNull ''linux'' = ([], Throw TypeError)"
    using k3 [THEN conjunct2, THEN conjunct2, THEN conjunct2, THEN conjunct2, THEN conjunct2,
        THEN conjunct2, THEN conjunct1]
    by simp
  then have s3: "select_license (host license_above JNull) JNull = ([], Throw TypeError)"
    by (simp add: k3 [THEN conjunct1] name)
  have a3: "apply_license (host license_above JNull) = ([?applying], Throw TypeError)"
    using k3 [THEN conjunct2, THEN conjunct2, THEN conjunct2, THEN conjunct2, THEN conjunct1,
        THEN mp]
      host_finds_license [of JNull] rd ps s3
    by (simp add: pf sep_def isWin_def)
  \<comment> \<open>the file holds an array\<close>
  note k4 = license_key_selection
    [where e = "host license_above licenses_array" and licenses = licenses_array
       and xs = "[]" and name = "''linux''" and p = ?p and contents = "''the license''"
       and license = None]
  have g4: "get_prop (Some licenses_array) ''keys'' = Inr (Some (JFunction ''keys''))"
    by (simp add: licenses_array_def)
  have "keys_entry licenses_array ''linux'' = ([], Continue None)"
    by (rule k4 [THEN conjunct2, THEN conjunct2, THEN conjunct2, THEN conjunct2, THEN conjunct2,
          THEN conjunct1, THEN mp])
       (simp add: licenses_array_def)
  then have s4: "select_license (host license_above licenses_array) licenses_array =
                   ([], Continue None)"
    by (simp add: k4 [THEN conjunct1] name)
  have a4: "apply_license (host license_above licenses_array) =
              ([?applying,
                Log ''Cannot find the license key appropriate for this platform in libxl-license.json''],
               Exit 1)"
    using k4 [THEN conjunct2, THEN conjunct2, THEN conjunct2, THEN conjunct1, THEN mp]
      host_finds_license [of licenses_array] rd ps s4
    by (simp add: pf sep_def isWin_def)
  from s1 a1 s2 a2 s3 a3 g4 s4 a4 show ?thesis
    by (simp add: pf)
qed



section \<open>The effects a run can have\<close>

lemma then_run_trace:
  assumes "list_all P (fst m)" and "\<And>a. list_all P (fst (f a))"
  shows "list_all P (fst (then_run m f))"
proof (cases m)
  case (Pair t r)
  show ?thesis
  proof (cases r)
    case (Continue a)
    obtain t' r' where fa: "f a = (t', r')"
      by (cases "f a")
    with assms(2) [of a] have "list_all P t'"
      by simp
    with assms(1) Pair Continue fa show ?thesis
      by (simp add: then_run_def)
  next
    case (Exit n)
    with assms(1) Pair show ?thesis
      by (simp add: then_run_def)
  next
    case (Throw x)
    with assms(1) Pair show ?thesis
      by (simp add: then_run_def)
  qed
qed

lemma value_of_trace: "list_all P (fst (value_of r))"
  by (cases r) (simp_all add: value_of_def)

lemma log_trace: "P (Log s) \<Longrightarrow> list_all P (fst (log s))"
  by (simp add: log_def)

lemma exit_with_trace: "list_all P (fst (exit_with n))"
  by (simp add: exit_with_def)

lemma perform_trace: "P eff \<Longrightarrow> list_all P (fst (perform failure eff))"
  by (cases failure) (simp_all add: perform_def)

lemma finder_trace: "list_all P (fst (finder e dir pattern))"
  unfolding finder_def by (intro then_run_trace value_of_trace) simp

lemma extractor_trace:
  assumes "\<And>s. P (Log s)" and "\<And>cmd args. P (Spawn cmd args)"
  shows "list_all P (fst (extractor e file))"
  unfolding extractor_def
  by (intro then_run_trace log_trace assms) (simp add: execute_def assms)

lemma provision_trace:
  assumes "\<And>s. P (Log s)" and "\<And>cmd args. P (Spawn cmd args)" and "\<And>p. P (Mkdir p)"
  shows "list_all P (fst (provision e))"
proof (cases "existsSync e libxlDir")
  case True
  then show ?thesis
    by (simp add: provision_def then_run_def log_def assms)
next
  case False
  have first: "list_all P (fst (if \<not> existsSync e (Rel [dependencyDir])
           then perform (mkdirSync e (Rel [dependencyDir])) (Mkdir (Rel [dependencyDir]))
           else ([], Continue ())))"
    by (simp add: perform_trace assms)
  have rest: "list_all P (fst (then_run (finder e [dependencyArchiveDir] s)
                     (\<lambda>selectedArchive.
                        then_run (extractor e selectedArchive) (\<lambda>_. ([], Continue True)))))" for s
    by (intro then_run_trace finder_trace extractor_trace assms) simp
  from False show ?thesis
    unfolding provision_def Let_def
    by (simp only: if_False) (intro then_run_trace first rest)
qed

lemma select_license_trace: "list_all P (fst (select_license e licenses))"
  by (simp add: select_license_silent)

lemma embed_license_trace:
  assumes "\<And>s. P (Log s)" and "\<And>c. P (WriteFile (api_key_h e) c)"
  shows "list_all P (fst (embed_license e licenses))"
  unfolding embed_license_def
  by (intro then_run_trace select_license_trace value_of_trace perform_trace assms)
     (auto simp: log_trace exit_with_trace assms intro!: then_run_trace)

lemma locate_trace:
  assumes "\<And>s. P (Log s)"
  shows "list_all P (fst (locate e))"
  by (cases "find_license e (dirname e)")
     (simp_all add: locate_def then_run_def log_def exit_with_def assms)

lemma apply_license_trace:
  assumes "\<And>s. P (Log s)" and "\<And>c. P (WriteFile (api_key_h e) c)"
  shows "list_all P (fst (apply_license e))"
  unfolding apply_license_def
  by (intro then_run_trace locate_trace log_trace value_of_trace embed_license_trace assms)

lemma script_trace:
  assumes "\<And>s. P (Log s)" and "\<And>c. P (WriteFile (api_key_h e) c)"
    and "\<And>cmd args. P (Spawn cmd args)" and "\<And>p. P (Mkdir p)"
  shows "list_all P (fst (script e))"
  unfolding script_def
  by (intro then_run_trace provision_trace apply_license_trace assms) simp

lemma on_close_trace:
  assumes "\<And>s. P (Log s)" and "\<And>p q. P (Rename p q)"
  shows "list_all P (fst (on_close e code))"
proof (cases "code = Some 0")
  case True
  have "list_all P (fst (case d of None \<Rightarrow> ([], Throw TypeError)
                     | Some d \<Rightarrow> perform (renameSync e d libxlDir) (Rename d libxlDir)))"
    for d :: "path option"
    by (cases d) (simp_all add: perform_trace assms)
  with True show ?thesis
    unfolding on_close_def
    by (simp only: simp_thms if_True) (intro then_run_trace finder_trace log_trace assms)
next
  case False
  then show ?thesis
    by (simp add: on_close_def exit_with_def)
qed

lemma finder_loop_find:
  "finder_loop dir pattern files =
     map_option (\<lambda>f. Rel (dir @ [f])) (List.find (prefix pattern) files)"
  by (induction files) simp_all

lemma not_ex_conv: "(\<not> list_ex P xs) = list_all (\<lambda>x. \<not> P x) xs"
  by (simp add: list_all_iff list_ex_iff)


section \<open>Providing the library: properties\<close>

text \<open>
  C7. When \<open>deps/libxl\<close> exists already, the block that provides the library only prints
  that there is nothing to do: nothing is created, unpacked or renamed, by the block or by
  the rest of the script, and no extraction is left running whose end could rename anything.
\<close>

theorem present_library_untouched:
  "existsSync e libxlDir \<longrightarrow>
     provision e = ([Log ''Libxl already downloaded, nothing to do''], Continue False) \<and>
     fst (script e) = Log ''Libxl already downloaded, nothing to do'' # fst (apply_license e) \<and>
     list_all (\<lambda>eff. \<not> provides_library eff) (fst (script e)) \<and>
     snd (script e) \<noteq> Continue True"
proof (intro impI conjI)
  assume present: "existsSync e libxlDir"
  then show p: "provision e = ([Log ''Libxl already downloaded, nothing to do''], Continue False)"
    by (simp add: provision_def then_run_def log_def)
  obtain t r where a: "apply_license e = (t, r)"
    by (cases "apply_license e")
  from p a show "fst (script e) =
      Log ''Libxl already downloaded, nothing to do'' # fst (apply_license e)"
    by (cases r) (simp_all add: script_def then_run_def)
  from p a show "snd (script e) \<noteq> Continue True"
    by (cases r) (simp_all add: script_def then_run_def)
  have "list_all (\<lambda>eff. \<not> provides_library eff) (fst (apply_license e))"
    by (rule apply_license_trace) simp_all
  with p a show "list_all (\<lambda>eff. \<not> provides_library eff) (fst (script e))"
    by (cases r) (simp_all add: script_def then_run_def)
qed

theorem present_library_untouched_witness:
  "existsSync (host library_present licenses0) libxlDir \<and>
   provision (host library_present licenses0) =
     ([Log ''Libxl already downloaded, nothing to do''], Continue False) \<and>
   script (host library_present licenses0) =
     ([Log ''Libxl already downloaded, nothing to do'',
       Log (''Applying licenses from '' @ [dquote] @ ''/home/libxl-license.json'' @ [dquote]),
       WriteFile (Abs (AbsPath ''/'' [''home'', ''app'', ''src'', ''api_key.h'']))
         (''#define INCLUDE_API_KEY 1'' @ [newline] @
          ''#define API_KEY_NAME '' @ [dquote] @ ''Acme Inc'' @ [dquote, newline] @
          ''#define API_KEY_KEY '' @ [dquote] @ ''lin-3'' @ [dquote, newline])],
      Continue False)"
proof -
  let ?e = "host library_present licenses0"
  have present: "existsSync ?e libxlDir"
    by (simp add: host_def library_present_def)
  with present_library_untouched [of ?e]
  have p: "provision ?e = ([Log ''Libxl already downloaded, nothing to do''], Continue False)"
    by blast
  have pf: "platform ?e = ''linux''"
    by (simp add: host_def)
  have fnd: "find_license ?e (dirname ?e) = Some (AbsPath ''/'' [''home'', ''libxl-license.json''])"
    by (simp add: find_license_unfold host_def library_present_def license_above_def
        licenseFilename_def libxlDir_def)
  have a: "apply_license ?e =
     ([Log (''Applying licenses from '' @ [dquote] @ ''/home/libxl-license.json'' @ [dquote]),
       WriteFile (Abs (AbsPath ''/'' [''home'', ''app'', ''src'', ''api_key.h'']))
         (''#define INCLUDE_API_KEY 1'' @ [newline] @
          ''#define API_KEY_NAME '' @ [dquote] @ ''Acme Inc'' @ [dquote, newline] @
          ''#define API_KEY_KEY '' @ [dquote] @ ''lin-3'' @ [dquote, newline])],
      Continue ())"
    by (simp add: apply_license_def locate_def fnd then_run_def log_def value_of_def
        embed_license_def select_license_def isWin_def isMac_def pf keys_entry_def
        perform_def api_key_h_def apiKeyFileContents_def js_string_def sep_def)
       (simp add: host_def licenses0_def)
  from p a have "script ?e =
     ([Log ''Libxl already downloaded, nothing to do'',
       Log (''Applying licenses from '' @ [dquote] @ ''/home/libxl-license.json'' @ [dquote]),
       WriteFile (Abs (AbsPath ''/'' [''home'', ''app'', ''src'', ''api_key.h'']))
         (''#define INCLUDE_API_KEY 1'' @ [newline] @
          ''#define API_KEY_NAME '' @ [dquote] @ ''Acme Inc'' @ [dquote, newline] @
          ''#define API_KEY_KEY '' @ [dquote] @ ''lin-3'' @ [dquote, newline])],
      Continue False)"
    by (simp add: script_def then_run_def)
  with present p show ?thesis
    by (intro conjI)
qed

lemma host_provision:
  "provision (host license_above l) =
     ([Mkdir (Rel [''deps'']),
       Log ''Extracting deps_archive/libxl-lin-3.6.2.tar.gz ...'',
       Spawn ''tar'' [Some ''-C'', Some ''deps'', Some ''--no-same-owner'', Some ''-zxf'',
                     Some ''deps_archive/libxl-lin-3.6.2.tar.gz'']],
      Continue True)"
proof -
  let ?e = "host license_above l"
  have pf: "platform ?e = ''linux''"
    and ex: "existsSync ?e p = license_above p"
    and mk: "mkdirSync ?e p = None"
    and rd: "readdirSync ?e (Rel [''deps_archive'']) =
               Inr [''README'', ''libxl-mac-3.6.2.tar.gz'', ''libxl-lin-3.6.2.tar.gz'']" for p
    by (simp_all add: host_def)
  show ?thesis
    by (simp add: provision_def ex license_above_def libxlDir_def dependencyDir_def
        dependencyArchiveDir_def mk perform_def then_run_def isWin_def isMac_def pf finder_def
        rd value_of_def extractor_def log_def execute_def shown_def passed_def sep_def)
qed

text \<open>
  C4 says that the script downloads the archive when \<open>deps/libxl\<close> is absent. On a host
  without \<open>deps/libxl\<close> the script unpacks an archive it finds in \<open>deps_archive\<close> and opens
  no connection, whereas \<open>download\<close>, had it been called, would open one.
\<close>

theorem download_never_called:
  "\<not> existsSync (host license_above licenses0) libxlDir \<and>
   fst (provision (host license_above licenses0)) =
     [Mkdir (Rel [''deps'']),
      Log ''Extracting deps_archive/libxl-lin-3.6.2.tar.gz ...'',
      Spawn ''tar'' [Some ''-C'', Some ''deps'', Some ''--no-same-owner'', Some ''-zxf'',
                    Some ''deps_archive/libxl-lin-3.6.2.tar.gz'']] \<and>
   \<not> list_ex connects (fst (script (host license_above licenses0))) \<and>
   list_ex connects (fst download)"
proof (intro conjI)
  show "\<not> existsSync (host license_above licenses0) libxlDir"
    by (simp add: host_def license_above_def libxlDir_def)
  show "fst (provision (host license_above licenses0)) =
     [Mkdir (Rel [''deps'']),
      Log ''Extracting deps_archive/libxl-lin-3.6.2.tar.gz ...'',
      Spawn ''tar'' [Some ''-C'', Some ''deps'', Some ''--no-same-owner'', Some ''-zxf'',
                    Some ''deps_archive/libxl-lin-3.6.2.tar.gz'']]"
    by (simp add: host_provision)
  have "list_all (\<lambda>eff. \<not> connects eff) (fst (script (host license_above licenses0)))"
    by (rule script_trace) simp_all
  then show "\<not> list_ex connects (fst (script (host license_above licenses0)))"
    by (simp add: not_ex_conv)
  show "list_ex connects (fst download)"
    by (simp add: download_def then_run_def log_def)
qed

lemma whole_run_trace:
  assumes "\<And>s. P (Log s)" and "\<And>p c. P (WriteFile p c)"
    and "\<And>cmd args. P (Spawn cmd args)" and "\<And>p. P (Mkdir p)" and "\<And>p q. P (Rename p q)"
  shows "list_all P (fst (whole_run e e' ending))"
proof -
  have "list_all P (fst (if started then
         (case ending of
            Inl x \<Rightarrow> ([], Throw x)
          | Inr code \<Rightarrow> on_close e' code)
       else ([], Continue ())))" for started
    by (cases ending) (simp_all add: on_close_trace assms)
  then show ?thesis
    unfolding whole_run_def
    by (intro then_run_trace script_trace assms)
qed

lemma script_never_renames: "\<not> list_ex renames (fst (script e))"
proof -
  have "list_all (\<lambda>eff. \<not> renames eff) (fst (script e))"
    by (rule script_trace) simp_all
  then show ?thesis
    by (simp add: not_ex_conv)
qed

lemma script_started:
  "(script e = (t, Continue True)) =
     (\<exists>t1 t2. provision e = (t1, Continue True) \<and> apply_license e = (t2, Continue ()) \<and>
              t = t1 @ t2)"
proof (cases "provision e")
  case (Pair t1 r1)
  obtain t2 r2 where a: "apply_license e = (t2, r2)"
    by (cases "apply_license e")
  show ?thesis
  proof (cases r1)
    case (Continue started)
    with Pair a show ?thesis
      by (cases r2) (auto simp: script_def then_run_def)
  next
    case (Exit n)
    with Pair show ?thesis
      by (simp add: script_def then_run_def)
  next
    case (Throw x)
    with Pair show ?thesis
      by (simp add: script_def then_run_def)
  qed
qed

lemma whole_run_ended:
  assumes "snd (script e) \<noteq> Continue True"
  shows "fst (whole_run e e' ending) = fst (script e)"
proof (cases "script e")
  case (Pair t r)
  with assms show ?thesis
    by (cases r) (auto simp: whole_run_def then_run_def)
qed

text \<open>
  C4, as the script has it. No run of the script, and nothing that follows it, opens a
  connection. When \<open>deps/libxl\<close> is absent, the script creates \<open>deps\<close> unless it exists,
  takes the first entry of the local directory \<open>deps_archive\<close> whose name starts with
  \<open>libxl-win\<close>, \<open>libxl-mac\<close> or \<open>libxl-lin\<close>, by platform, and starts its extraction into
  \<open>deps\<close>: with \<open>7za.exe\<close> on Windows, with \<open>tar\<close> elsewhere. The script itself renames
  nothing. Only in a run where the license part then reaches its end, without exit or
  exception, the process waits for the extraction: when it ends with code 0, the first
  entry of \<open>deps\<close> whose name starts with \<open>libxl\<close> is renamed to \<open>deps/libxl\<close>, and with any
  other code the process exits with code 1. In a run where the script exits or throws
  first, as it does when no license file is found, the process ends with what the script
  has done, and nothing is renamed.
\<close>

theorem library_from_local_archive:
  "\<not> list_ex connects (fst (script e)) \<and>
   \<not> list_ex connects (fst (on_close e' code)) \<and>
   finder_loop dir pattern names =
     map_option (\<lambda>f. Rel (dir @ [f])) (List.find (prefix pattern) names) \<and>
   (\<not> existsSync e libxlDir \<and>
    (existsSync e (Rel [dependencyDir]) \<or> mkdirSync e (Rel [dependencyDir]) = None) \<and>
    readdirSync e (Rel [dependencyArchiveDir]) = Inr files \<and>
    selectedArchive =
      finder_loop [dependencyArchiveDir]
        (''libxl-'' @ (if isWin e then ''win'' else if isMac e then ''mac'' else ''lin'')) files
    \<longrightarrow>
      provision e =
        ((if existsSync e (Rel [dependencyDir]) then [] else [Mkdir (Rel [dependencyDir])]) @
         [Log (''Extracting '' @ shown e selectedArchive @ '' ...''),
          (if isWin e
           then Spawn (path_string e (Rel [''tools'', ''7zip'', ''7za.exe'']))
                  [Some ''x'', passed e selectedArchive, Some (''-o'' @ dependencyDir)]
           else Spawn ''tar''
                  [Some ''-C'', Some dependencyDir, Some ''--no-same-owner'', Some ''-zxf'',
                   passed e selectedArchive])],
         Continue True)) \<and>
   (readdirSync e' (Rel [dependencyDir]) = Inr entries \<and>
    finder_loop [dependencyDir] ''libxl'' entries = Some extractedDir \<and>
    renameSync e' extractedDir libxlDir = None \<longrightarrow>
      on_close e' (Some 0) =
        ([Log (''Renaming '' @ path_string e' extractedDir @ '' to '' @ path_string e' libxlDir
               @ '' ...''),
          Rename extractedDir libxlDir],
         Continue ())) \<and>
   (code \<noteq> Some 0 \<longrightarrow> on_close e' code = ([], Exit 1)) \<and>
   \<not> list_ex connects (fst (whole_run e e' ending)) \<and>
   \<not> list_ex renames (fst (script e)) \<and>
   (script e = (t, Continue True)) =
     (\<exists>t1 t2. provision e = (t1, Continue True) \<and> apply_license e = (t2, Continue ()) \<and>
              t = t1 @ t2) \<and>
   (script e = (t, Continue True) \<longrightarrow>
      whole_run e e' (Inr code) = (t @ fst (on_close e' code), snd (on_close e' code)) \<and>
      whole_run e e' (Inl y) = (t, Throw y)) \<and>
   (script e = (t, Continue True) \<and>
    readdirSync e' (Rel [dependencyDir]) = Inr entries \<and>
    finder_loop [dependencyDir] ''libxl'' entries = Some extractedDir \<and>
    renameSync e' extractedDir libxlDir = None \<longrightarrow>
      whole_run e e' (Inr (Some 0)) =
        (t @ [Log (''Renaming '' @ path_string e' extractedDir @ '' to '' @
                   path_string e' libxlDir @ '' ...''),
              Rename extractedDir libxlDir],
         Continue ())) \<and>
   (script e = (t, Continue True) \<and> code \<noteq> Some 0 \<longrightarrow>
      whole_run e e' (Inr code) = (t, Exit 1)) \<and>
   (snd (script e) \<noteq> Continue True \<longrightarrow>
      fst (whole_run e e' ending) = fst (script e) \<and>
      \<not> list_ex renames (fst (whole_run e e' ending))) \<and>
   (script e = (t, Exit n) \<longrightarrow> whole_run e e' ending = (t, Exit n)) \<and>
   (script e = (t, Throw y) \<longrightarrow> whole_run e e' ending = (t, Throw y)) \<and>
   (provision e = (t1, Continue True) \<and> find_license e (dirname e) = None \<longrightarrow>
      whole_run e e' ending =
        (t1 @ [Log ''Cannot locate libxl-license.json; terminating''], Exit 1))"
proof (intro conjI impI)
  have "list_all (\<lambda>eff. \<not> connects eff) (fst (script e))"
    by (rule script_trace) simp_all
  then show "\<not> list_ex connects (fst (script e))"
    by (simp add: not_ex_conv)
  have "list_all (\<lambda>eff. \<not> connects eff) (fst (on_close e' code))"
    by (rule on_close_trace) simp_all
  then show "\<not> list_ex connects (fst (on_close e' code))"
    by (simp add: not_ex_conv)
  show "finder_loop dir pattern names =
     map_option (\<lambda>f. Rel (dir @ [f])) (List.find (prefix pattern) names)"
    by (rule finder_loop_find)
next
  assume a: "\<not> existsSync e libxlDir \<and>
    (existsSync e (Rel [dependencyDir]) \<or> mkdirSync e (Rel [dependencyDir]) = None) \<and>
    readdirSync e (Rel [dependencyArchiveDir]) = Inr files \<and>
    selectedArchive =
      finder_loop [dependencyArchiveDir]
        (''libxl-'' @ (if isWin e then ''win'' else if isMac e then ''mac'' else ''lin'')) files"
  then have fnd: "finder e [dependencyArchiveDir]
        (''libxl-'' @ (if isWin e then ''win'' else if isMac e then ''mac'' else ''lin'')) =
        ([], Continue selectedArchive)"
    by (simp add: finder_def then_run_def value_of_def)
  have ext: "extractor e selectedArchive =
        ([Log (''Extracting '' @ shown e selectedArchive @ '' ...''),
          (if isWin e
           then Spawn (path_string e (Rel [''tools'', ''7zip'', ''7za.exe'']))
                  [Some ''x'', passed e selectedArchive, Some (''-o'' @ dependencyDir)]
           else Spawn ''tar''
                  [Some ''-C'', Some dependencyDir, Some ''--no-same-owner'', Some ''-zxf'',
                   passed e selectedArchive])],
         Continue ())"
    by (simp add: extractor_def then_run_def log_def execute_def)
  from a have mk: "(if \<not> existsSync e (Rel [dependencyDir])
           then perform (mkdirSync e (Rel [dependencyDir])) (Mkdir (Rel [dependencyDir]))
           else ([], Continue ())) =
        ((if existsSync e (Rel [dependencyDir]) then [] else [Mkdir (Rel [dependencyDir])]),
         Continue ())"
    by (auto simp: perform_def)
  from a have absent: "\<not> existsSync e libxlDir"
    by simp
  show "provision e =
        ((if existsSync e (Rel [dependencyDir]) then [] else [Mkdir (Rel [dependencyDir])]) @
         [Log (''Extracting '' @ shown e selectedArchive @ '' ...''),
          (if isWin e
           then Spawn (path_string e (Rel [''tools'', ''7zip'', ''7za.exe'']))
                  [Some ''x'', passed e selectedArchive, Some (''-o'' @ dependencyDir)]
           else Spawn ''tar''
                  [Some ''-C'', Some dependencyDir, Some ''--no-same-owner'', Some ''-zxf'',
                   passed e selectedArchive])],
         Continue True)"
    unfolding provision_def Let_def
    by (simp only: absent if_False mk fnd) (simp add: then_run_def ext)
next
  assume "readdirSync e' (Rel [dependencyDir]) = Inr entries \<and>
    finder_loop [dependencyDir] ''libxl'' entries = Some extractedDir \<and>
    renameSync e' extractedDir libxlDir = None"
  then show "on_close e' (Some 0) =
        ([Log (''Renaming '' @ path_string e' extractedDir @ '' to '' @ path_string e' libxlDir
               @ '' ...''),
          Rename extractedDir libxlDir],
         Continue ())"
    by (simp add: on_close_def finder_def then_run_def value_of_def log_def shown_def
        perform_def)
next
  assume "code \<noteq> Some 0"
  then show "on_close e' code = ([], Exit 1)"
    by (simp add: on_close_def exit_with_def)
next
  have "list_all (\<lambda>eff. \<not> connects eff) (fst (whole_run e e' ending))"
    by (rule whole_run_trace) simp_all
  then show "\<not> list_ex connects (fst (whole_run e e' ending))"
    by (simp add: not_ex_conv)
  show "\<not> list_ex renames (fst (script e))"
    by (rule script_never_renames)
  show "(script e = (t, Continue True)) =
     (\<exists>t1 t2. provision e = (t1, Continue True) \<and> apply_license e = (t2, Continue ()) \<and>
              t = t1 @ t2)"
    by (rule script_started)
next
  assume "script e = (t, Continue True)"
  then show "whole_run e e' (Inr code) = (t @ fst (on_close e' code), snd (on_close e' code))"
    and "whole_run e e' (Inl y) = (t, Throw y)"
    by (simp_all add: whole_run_def then_run_def split: prod.splits)
next
  assume "script e = (t, Continue True) \<and>
    readdirSync e' (Rel [dependencyDir]) = Inr entries \<and>
    finder_loop [dependencyDir] ''libxl'' entries = Some extractedDir \<and>
    renameSync e' extractedDir libxlDir = None"
  then show "whole_run e e' (Inr (Some 0)) =
        (t @ [Log (''Renaming '' @ path_string e' extractedDir @ '' to '' @
                   path_string e' libxlDir @ '' ...''),
              Rename extractedDir libxlDir],
         Continue ())"
    by (simp add: whole_run_def then_run_def on_close_def finder_def value_of_def log_def
        shown_def perform_def)
next
  assume "script e = (t, Continue True) \<and> code \<noteq> Some 0"
  then show "whole_run e e' (Inr code) = (t, Exit 1)"
    by (simp add: whole_run_def then_run_def on_close_def exit_with_def)
next
  assume other: "snd (script e) \<noteq> Continue True"
  then show same: "fst (whole_run e e' ending) = fst (script e)"
    by (rule whole_run_ended)
  from script_never_renames [of e] show "\<not> list_ex renames (fst (whole_run e e' ending))"
    by (simp add: same)
next
  assume "script e = (t, Exit n)"
  then show "whole_run e e' ending = (t, Exit n)"
    by (simp add: whole_run_def then_run_def)
next
  assume "script e = (t, Throw y)"
  then show "whole_run e e' ending = (t, Throw y)"
    by (simp add: whole_run_def then_run_def)
next
  assume "provision e = (t1, Continue True) \<and> find_license e (dirname e) = None"
  then show "whole_run e e' ending =
        (t1 @ [Log ''Cannot locate libxl-license.json; terminating''], Exit 1)"
    by (simp add: whole_run_def script_def apply_license_def locate_def then_run_def log_def
        exit_with_def)
qed




theorem library_from_local_archive_witness:
  "\<not> existsSync (host license_above licenses0) libxlDir \<and>
   mkdirSync (host license_above licenses0) (Rel [dependencyDir]) = None \<and>
   readdirSync (host license_above licenses0) (Rel [dependencyArchiveDir]) =
     Inr [''README'', ''libxl-mac-3.6.2.tar.gz'', ''libxl-lin-3.6.2.tar.gz''] \<and>
   provision (host license_above licenses0) =
     ([Mkdir (Rel [''deps'']),
       Log ''Extracting deps_archive/libxl-lin-3.6.2.tar.gz ...'',
       Spawn ''tar'' [Some ''-C'', Some ''deps'', Some ''--no-same-owner'', Some ''-zxf'',
                     Some ''deps_archive/libxl-lin-3.6.2.tar.gz'']],
      Continue True) \<and>
   readdirSync unpacked (Rel [dependencyDir]) = Inr [''libxl-3.6.2.0''] \<and>
   on_close unpacked (Some 0) =
     ([Log ''Renaming deps/libxl-3.6.2.0 to deps/libxl ...'',
       Rename (Rel [''deps'', ''libxl-3.6.2.0'']) (Rel [''deps'', ''libxl''])],
      Continue ()) \<and>
   on_close unpacked (Some 2) = ([], Exit 1) \<and>
   script (host license_above licenses0) =
     ([Mkdir (Rel [''deps'']),
       Log ''Extracting deps_archive/libxl-lin-3.6.2.tar.gz ...'',
       Spawn ''tar'' [Some ''-C'', Some ''deps'', Some ''--no-same-owner'', Some ''-zxf'',
                     Some ''deps_archive/libxl-lin-3.6.2.tar.gz''],
       Log (''Applying licenses from '' @ [dquote] @ ''/home/libxl-license.json'' @ [dquote]),
       WriteFile (Abs (AbsPath ''/'' [''home'', ''app'', ''src'', ''api_key.h'']))
         (apiKeyFileContents (Some (JStr ''Acme Inc'')) (Some (JStr ''lin-3'')))],
      Continue True) \<and>
   whole_run (host license_above licenses0) unpacked (Inr (Some 0)) =
     ([Mkdir (Rel [''deps'']),
       Log ''Extracting deps_archive/libxl-lin-3.6.2.tar.gz ...'',
       Spawn ''tar'' [Some ''-C'', Some ''deps'', Some ''--no-same-owner'', Some ''-zxf'',
                     Some ''deps_archive/libxl-lin-3.6.2.tar.gz''],
       Log (''Applying licenses from '' @ [dquote] @ ''/home/libxl-license.json'' @ [dquote]),
       WriteFile (Abs (AbsPath ''/'' [''home'', ''app'', ''src'', ''api_key.h'']))
         (apiKeyFileContents (Some (JStr ''Acme Inc'')) (Some (JStr ''lin-3''))),
       Log ''Renaming deps/libxl-3.6.2.0 to deps/libxl ...'',
       Rename (Rel [''deps'', ''libxl-3.6.2.0'']) (Rel [''deps'', ''libxl''])],
      Continue ()) \<and>
   find_license (host nothing licenses0) (dirname (host nothing licenses0)) = None \<and>
   provision (host nothing licenses0) =
     ([Mkdir (Rel [''deps'']),
       Log ''Extracting deps_archive/libxl-lin-3.6.2.tar.gz ...'',
       Spawn ''tar'' [Some ''-C'', Some ''deps'', Some ''--no-same-owner'', Some ''-zxf'',
                     Some ''deps_archive/libxl-lin-3.6.2.tar.gz'']],
      Continue True) \<and>
   whole_run (host nothing licenses0) unpacked (Inr (Some 0)) =
     ([Mkdir (Rel [''deps'']),
       Log ''Extracting deps_archive/libxl-lin-3.6.2.tar.gz ...'',
       Spawn ''tar'' [Some ''-C'', Some ''deps'', Some ''--no-same-owner'', Some ''-zxf'',
                     Some ''deps_archive/libxl-lin-3.6.2.tar.gz''],
       Log ''Cannot locate libxl-license.json; terminating''],
      Exit 1)"
proof -
  let ?e = "host license_above licenses0"
  let ?files = "[''README'', ''libxl-mac-3.6.2.tar.gz'', ''libxl-lin-3.6.2.tar.gz'']"
  let ?sel = "Some (Rel [''deps_archive'', ''libxl-lin-3.6.2.tar.gz''])"
  let ?dir = "Rel [''deps'', ''libxl-3.6.2.0'']"
  have pf: "platform ?e = ''linux''" "platform unpacked = ''linux''"
    by (simp_all add: host_def unpacked_def)
  have absent: "\<not> existsSync ?e libxlDir" "\<not> existsSync ?e (Rel [dependencyDir])"
    by (simp_all add: host_def license_above_def libxlDir_def)
  have mk: "mkdirSync ?e (Rel [dependencyDir]) = None"
    by (simp add: host_def)
  have rd: "readdirSync ?e (Rel [dependencyArchiveDir]) = Inr ?files"
    by (simp add: host_def dependencyArchiveDir_def)
  have sel: "?sel = finder_loop [dependencyArchiveDir]
        (''libxl-'' @ (if isWin ?e then ''win'' else if isMac ?e then ''mac'' else ''lin''))
        ?files"
    by (simp add: isWin_def isMac_def pf dependencyArchiveDir_def)
  have rd': "readdirSync unpacked (Rel [dependencyDir]) = Inr [''libxl-3.6.2.0'']"
    by (simp add: unpacked_def dependencyDir_def)
  have found: "finder_loop [dependencyDir] ''libxl'' [''libxl-3.6.2.0''] = Some ?dir"
    by (simp add: dependencyDir_def)
  have rn: "renameSync unpacked ?dir libxlDir = None"
    by (simp add: unpacked_def host_def)
  have absent': "\<not> existsSync ?e (Rel [''deps''])"
    by (simp add: host_def license_above_def)
  note inst = library_from_local_archive
    [where e = ?e and e' = unpacked and code = "Some 2" and files = ?files
       and selectedArchive = ?sel and entries = "[''libxl-3.6.2.0'']" and extractedDir = ?dir]
  have hyps: "\<not> existsSync ?e libxlDir \<and>
    (existsSync ?e (Rel [dependencyDir]) \<or> mkdirSync ?e (Rel [dependencyDir]) = None) \<and>
    readdirSync ?e (Rel [dependencyArchiveDir]) = Inr ?files \<and>
    ?sel = finder_loop [dependencyArchiveDir]
        (''libxl-'' @ (if isWin ?e then ''win'' else if isMac ?e then ''mac'' else ''lin''))
        ?files"
    by (intro conjI disjI2 absent mk rd sel)
  note raw = inst [THEN conjunct2, THEN conjunct2, THEN conjunct2, THEN conjunct1, THEN mp,
      OF hyps]
  from raw
  have 1: "provision ?e =
     ([Mkdir (Rel [''deps'']),
       Log ''Extracting deps_archive/libxl-lin-3.6.2.tar.gz ...'',
       Spawn ''tar'' [Some ''-C'', Some ''deps'', Some ''--no-same-owner'', Some ''-zxf'',
                     Some ''deps_archive/libxl-lin-3.6.2.tar.gz'']],
      Continue True)"
    by (simp add: absent' isWin_def pf shown_def passed_def sep_def dependencyDir_def)
  have hyps': "readdirSync unpacked (Rel [dependencyDir]) = Inr [''libxl-3.6.2.0''] \<and>
    finder_loop [dependencyDir] ''libxl'' [''libxl-3.6.2.0''] = Some ?dir \<and>
    renameSync unpacked ?dir libxlDir = None"
    by (intro conjI rd' found rn)
  note raw' = inst [THEN conjunct2, THEN conjunct2, THEN conjunct2, THEN conjunct2,
      THEN conjunct1, THEN mp, OF hyps']
  from raw'
  have 2: "on_close unpacked (Some 0) =
     ([Log ''Renaming deps/libxl-3.6.2.0 to deps/libxl ...'',
       Rename (Rel [''deps'', ''libxl-3.6.2.0'']) (Rel [''deps'', ''libxl''])],
      Continue ())"
    by (simp add: isWin_def pf sep_def libxlDir_def dependencyDir_def)
  from inst have 3: "on_close unpacked (Some 2) = ([], Exit 1)"
    by simp
  let ?started = "[Mkdir (Rel [''deps'']),
       Log ''Extracting deps_archive/libxl-lin-3.6.2.tar.gz ...'',
       Spawn ''tar'' [Some ''-C'', Some ''deps'', Some ''--no-same-owner'', Some ''-zxf'',
                     Some ''deps_archive/libxl-lin-3.6.2.tar.gz'']]"
  let ?licensed = "[Log (''Applying licenses from '' @ [dquote] @ ''/home/libxl-license.json''
                         @ [dquote]),
       WriteFile (Abs (AbsPath ''/'' [''home'', ''app'', ''src'', ''api_key.h'']))
         (apiKeyFileContents (Some (JStr ''Acme Inc'')) (Some (JStr ''lin-3'')))]"
  have app: "apply_license ?e = (?licensed, Continue ())"
    by (simp add: apply_license_def locate_def host_finds_license then_run_def log_def
        value_of_def embed_license_def select_license_def isWin_def isMac_def pf keys_entry_def
        perform_def api_key_h_def sep_def)
       (simp add: host_def licenses0_def)
  note run = library_from_local_archive
    [where e = ?e and e' = unpacked and t = "?started @ ?licensed"
       and entries = "[''libxl-3.6.2.0'']" and extractedDir = ?dir]
  have "\<exists>t1 t2. provision ?e = (t1, Continue True) \<and> apply_license ?e = (t2, Continue ()) \<and>
                 ?started @ ?licensed = t1 @ t2"
    using 1 app by blast
  then have 4: "script ?e = (?started @ ?licensed, Continue True)"
    using run [THEN conjunct2, THEN conjunct2, THEN conjunct2, THEN conjunct2, THEN conjunct2,
        THEN conjunct2, THEN conjunct2, THEN conjunct2, THEN conjunct1]
    by blast
  have hyps'': "script ?e = (?started @ ?licensed, Continue True) \<and>
    readdirSync unpacked (Rel [dependencyDir]) = Inr [''libxl-3.6.2.0''] \<and>
    finder_loop [dependencyDir] ''libxl'' [''libxl-3.6.2.0''] = Some ?dir \<and>
    renameSync unpacked ?dir libxlDir = None"
    by (intro conjI 4 rd' found rn)
  from run [THEN conjunct2, THEN conjunct2, THEN conjunct2, THEN conjunct2, THEN conjunct2,
        THEN conjunct2, THEN conjunct2, THEN conjunct2, THEN conjunct2, THEN conjunct2,
        THEN conjunct1, THEN mp, OF hyps'']
  have 5: "whole_run ?e unpacked (Inr (Some 0)) =
     (?started @ ?licensed @
      [Log ''Renaming deps/libxl-3.6.2.0 to deps/libxl ...'',
       Rename (Rel [''deps'', ''libxl-3.6.2.0'']) (Rel [''deps'', ''libxl''])],
      Continue ())"
    by (simp add: isWin_def pf sep_def libxlDir_def dependencyDir_def)
  let ?lost = "host nothing licenses0"
  have lost: "find_license ?lost (dirname ?lost) = None"
    by (simp add: find_license_None host_def nothing_def)
  have lpf: "platform ?lost = ''linux''"
    and lex: "existsSync ?lost q = False"
    and lmk: "mkdirSync ?lost q = None"
    and lrd: "readdirSync ?lost (Rel [''deps_archive'']) = Inr ?files" for q
    by (simp_all add: host_def nothing_def)
  have 6: "provision ?lost = (?started, Continue True)"
    by (simp add: provision_def lex libxlDir_def dependencyDir_def dependencyArchiveDir_def
        lmk perform_def then_run_def isWin_def isMac_def lpf finder_def lrd value_of_def
        extractor_def log_def execute_def shown_def passed_def sep_def)
  have hyps3: "provision ?lost = (?started, Continue True) \<and>
      find_license ?lost (dirname ?lost) = None"
    by (intro conjI 6 lost)
  note ended = library_from_local_archive
    [where e = ?lost and e' = unpacked and ending = "Inr (Some 0)" and ?t1.0 = ?started]
  from ended [THEN conjunct2, THEN conjunct2, THEN conjunct2, THEN conjunct2, THEN conjunct2,
        THEN conjunct2, THEN conjunct2, THEN conjunct2, THEN conjunct2, THEN conjunct2,
        THEN conjunct2, THEN conjunct2, THEN conjunct2, THEN conjunct2, THEN conjunct2,
        THEN mp, OF hyps3]
  have 7: "whole_run ?lost unpacked (Inr (Some 0)) =
     (?started @ [Log ''Cannot locate libxl-license.json; terminating''], Exit 1)"
    by simp
  from absent mk rd 1 rd' 2 3 4 5 lost 6 7 show ?thesis
    by simp
qed

section \<open>The header and the key of the constructor\<close>

lemma split_on_none: "c \<notin> set a \<Longrightarrow> split_on c a = [a]"
  by (induction a) auto
















end
